theory Spec2Isabelle
  imports Complex_Main
begin

section \<open>The music catalogue models (app/music/models.py)\<close>

text \<open>
  The source file declares seven Django models on top of one abstract base class,
  \<^verbatim>\<open>ValidatedModel\<close>, whose \<^verbatim>\<open>save\<close> calls \<^verbatim>\<open>full_clean\<close> before the framework's
  \<^verbatim>\<open>Model.save\<close>. Two functions (\<^verbatim>\<open>less_than_five\<close>, \<^verbatim>\<open>get_current_year\<close>) and one
  method (\<^verbatim>\<open>Author.clean\<close>) carry the only hand-written logic; everything else is a
  declaration that the framework interprets.

  The theory has two layers. The declarations and the three functions are translated from
  models.py line by line and keep their names. The framework calls they rely on
  (\<^verbatim>\<open>Field.clean\<close>, \<^verbatim>\<open>Model.full_clean\<close>, \<^verbatim>\<open>Model.save\<close>, the deletion collector, the
  many-to-many manager) are modelled after Django 5 in the subsections marked
  \<^emph>\<open>framework\<close>; each such definition names the Django method it stands for.

  Naming: a record selector is written in lower case with the model as prefix
  (\<open>author_first_appearance self\<close> is \<^verbatim>\<open>self.first_appearance\<close> of an Author), the field
  declaration of the class is written with the class name (\<open>Author_first_appearance\<close> is
  \<^verbatim>\<open>Author.first_appearance = models.SmallIntegerField(...)\<close>).
\<close>

subsection \<open>Python values\<close>

text \<open>
  \<^verbatim>\<open>datetime\<close>: Python bounds the year of every datetime by \<^verbatim>\<open>MINYEAR = 1\<close> and
  \<^verbatim>\<open>MAXYEAR = 9999\<close>; the type \<open>year\<close> carries that bound.
\<close>

typedef year = "{1 .. 9999 :: int}"
  by auto

record datetime =
  year :: year
  month :: nat
  day :: nat
  hour :: nat
  minute :: nat
  second :: nat
  microsecond :: nat

text \<open>
  \<^verbatim>\<open>decimal.Decimal\<close> (finite values): sign, coefficient and exponent; the value is
  \<open>\<plusminus> coefficient * 10 ^ exponent\<close>. The digit tuple of \<^verbatim>\<open>as_tuple()\<close> is the decimal
  expansion of the coefficient, so its length is \<open>ndigits\<close>.
\<close>

record decimal =
  negative :: bool
  coefficient :: nat
  exponent :: int

definition dec_value :: "decimal \<Rightarrow> rat" where
  "dec_value d =
     (let c = (if negative d then - of_nat (coefficient d) else of_nat (coefficient d))
      in if 0 \<le> exponent d then c * 10 ^ nat (exponent d)
         else c / 10 ^ nat (- exponent d))"

fun ndigits :: "nat \<Rightarrow> nat" where
  "ndigits n = (if n < 10 then 1 else Suc (ndigits (n div 10)))"

declare ndigits.simps [simp del]

text \<open>
  The world outside the program: the wall clock read by \<^verbatim>\<open>datetime.datetime.today()\<close>,
  and the verdict of Django's \<^verbatim>\<open>URLValidator\<close> (a regular expression of the framework,
  taken as given).
\<close>

record env =
  today :: datetime
  url_valid :: "string \<Rightarrow> bool"

text \<open>
  Exceptions. A \<^verbatim>\<open>ValidationError\<close> carries either a list of messages or, when raised by
  \<^verbatim>\<open>full_clean\<close>, a dictionary from field names to messages (\<open>ValidationErrorDict\<close>,
  an association list in the order the errors were found).
\<close>

datatype error =
    ValidationError "string list"
  | ValidationErrorDict "(string \<times> string list) list"
  | IntegrityError string
  | ValueError string

definition NON_FIELD_ERRORS :: string where
  "NON_FIELD_ERRORS = ''__all__''"

subsection \<open>Validators (framework: django.core.validators)\<close>

text \<open>
  A validator is a callable that raises \<^verbatim>\<open>ValidationError\<close> or returns nothing. The limit
  of a \<^verbatim>\<open>MinValueValidator\<close>/\<^verbatim>\<open>MaxValueValidator\<close> is a value or a callable; a callable is
  called each time the validator runs (\<^verbatim>\<open>BaseValidator.__call__\<close>).
\<close>

type_synonym 'v validator = "env \<Rightarrow> 'v \<Rightarrow> error + unit"

datatype 'a limit = Fixed 'a | Callable "env \<Rightarrow> 'a"

fun limit_value :: "env \<Rightarrow> 'a limit \<Rightarrow> 'a" where
  "limit_value e (Fixed n) = n"
| "limit_value e (Callable f) = f e"

definition MinValueValidator :: "int limit \<Rightarrow> int validator" where
  "MinValueValidator bound e v =
     (if v < limit_value e bound then Inl (ValidationError [''min_value'']) else Inr ())"

definition MaxValueValidator :: "int limit \<Rightarrow> int validator" where
  "MaxValueValidator bound e v =
     (if v > limit_value e bound then Inl (ValidationError [''max_value'']) else Inr ())"

definition MaxLengthValidator :: "nat \<Rightarrow> string validator" where
  "MaxLengthValidator n e v =
     (if length v > n then Inl (ValidationError [''max_length'']) else Inr ())"

definition URLValidator :: "string validator" where
  "URLValidator e v = (if url_valid e v then Inr () else Inl (ValidationError [''invalid'']))"

text \<open>
  \<^verbatim>\<open>DecimalValidator(max_digits, decimal_places)\<close>: the first of its three checks that
  fails raises.
\<close>

definition DecimalValidator :: "nat \<Rightarrow> nat \<Rightarrow> decimal validator" where
  "DecimalValidator max_digits decimal_places e v =
     (let len = ndigits (coefficient v);
          digits = (if 0 \<le> exponent v
                    then (if coefficient v \<noteq> 0 then len + nat (exponent v) else len)
                    else (if nat (- exponent v) > len then nat (- exponent v) else len));
          decimals = (if 0 \<le> exponent v then 0 else nat (- exponent v))
      in if digits > max_digits then Inl (ValidationError [''max_digits''])
         else if decimals > decimal_places then Inl (ValidationError [''max_decimal_places''])
         else if int digits - int decimals > int max_digits - int decimal_places
              then Inl (ValidationError [''max_whole_digits''])
         else Inr ())"

subsection \<open>The two module-level functions of models.py\<close>

text \<open>
  \<^verbatim>\<open>def less_than_five(value): if value >= 5: raise ValidationError("The price must be
  lower than 5 euros.")\<close>. The field hands it the \<^verbatim>\<open>Decimal\<close> that \<^verbatim>\<open>to_python\<close> returned.
\<close>

definition less_than_five :: "decimal \<Rightarrow> error + unit" where
  "less_than_five v =
     (if dec_value v \<ge> 5 then Inl (ValidationError [''The price must be lower than 5 euros.''])
      else Inr ())"

text \<open>\<^verbatim>\<open>def get_current_year(): return datetime.datetime.today().year\<close>\<close>

definition get_current_year :: "env \<Rightarrow> int" where
  "get_current_year e = Rep_year (year (today e))"

subsection \<open>Fields (framework: django.db.models.fields)\<close>

text \<open>
  The options of a field that validation reads. \<open>validators\<close> is the \<^verbatim>\<open>validators=\<close>
  argument of the declaration; \<open>class_validators\<close> are the ones the field class adds by
  itself (the length bound of a \<^verbatim>\<open>CharField\<close>, the \<^verbatim>\<open>DecimalValidator\<close> of a
  \<^verbatim>\<open>DecimalField\<close>, the backend's integer range of an \<^verbatim>\<open>IntegerField\<close>).
\<close>

record 'v field =
  null :: bool
  blank :: bool
  editable :: bool
  choices :: "('v \<times> string) list option"
  validators :: "'v validator list"
  class_validators :: "'v validator list"

definition Field :: "'v field" where
  "Field = \<lparr> null = False, blank = False, editable = True, choices = None,
             validators = [], class_validators = [] \<rparr>"

definition CharField :: "nat \<Rightarrow> string field" where
  "CharField max_length = Field \<lparr> class_validators := [MaxLengthValidator max_length] \<rparr>"

text \<open>\<^verbatim>\<open>URLField\<close>: a \<^verbatim>\<open>CharField\<close> with \<^verbatim>\<open>max_length\<close> 200 by default and a \<^verbatim>\<open>URLValidator\<close>.\<close>

definition URLField :: "string field" where
  "URLField = Field \<lparr> class_validators := [URLValidator, MaxLengthValidator 200] \<rparr>"

text \<open>
  \<^verbatim>\<open>IntegerField.validators\<close> adds the range of the column type as reported by the
  database backend (\<^verbatim>\<open>BaseDatabaseOperations.integer_field_ranges\<close>; a backend may report a
  wider range, never a narrower one). Django leaves such a bound out when a declared
  validator of the same kind is at least as strict; the values accepted are the same.
\<close>

definition integer_field_range :: "string \<Rightarrow> int \<times> int" where
  "integer_field_range internal_type =
     (if internal_type = ''SmallIntegerField'' then (- 32768, 32767)
      else if internal_type = ''PositiveIntegerField'' then (0, 2147483647)
      else (- 2147483648, 2147483647))"

definition IntegerField_of :: "string \<Rightarrow> int field" where
  "IntegerField_of internal_type =
     (case integer_field_range internal_type of
        (min_value, max_value) \<Rightarrow>
          Field \<lparr> class_validators := [MinValueValidator (Fixed min_value),
                                        MaxValueValidator (Fixed max_value)] \<rparr>)"

definition SmallIntegerField :: "int field" where
  "SmallIntegerField = IntegerField_of ''SmallIntegerField''"

definition PositiveIntegerField :: "int field" where
  "PositiveIntegerField = IntegerField_of ''PositiveIntegerField''"

definition DecimalField :: "nat \<Rightarrow> nat \<Rightarrow> decimal field" where
  "DecimalField max_digits decimal_places =
     Field \<lparr> class_validators := [DecimalValidator max_digits decimal_places] \<rparr>"

text \<open>
  \<^verbatim>\<open>value in self.empty_values\<close>, with \<^verbatim>\<open>empty_values = [None, "", [], (), {}]\<close>: \<open>None\<close>,
  or a value the field's type counts as empty (the empty string for text and file names;
  no number, duration, time or boolean is empty).
\<close>

definition in_empty_values :: "('v \<Rightarrow> bool) \<Rightarrow> 'v option \<Rightarrow> bool" where
  "in_empty_values is_empty raw = (case raw of None \<Rightarrow> True | Some v \<Rightarrow> is_empty v)"

definition empty_str :: "string \<Rightarrow> bool" where
  "empty_str s = (s = [])"

definition never_empty :: "'v \<Rightarrow> bool" where
  "never_empty v = False"

text \<open>
  \<^verbatim>\<open>Field.validate\<close>: nothing for a non-editable field; then the choices, the null check
  and the blank check, in this order.
\<close>

definition invalid_choice :: "('v \<times> string) list option \<Rightarrow> 'v option \<Rightarrow> bool" where
  "invalid_choice cs raw =
     (case cs of
        None \<Rightarrow> False
      | Some options \<Rightarrow> (case raw of None \<Rightarrow> False | Some v \<Rightarrow> v \<notin> set (map fst options)))"

definition validate :: "('v \<Rightarrow> bool) \<Rightarrow> ('v, 'x) field_scheme \<Rightarrow> 'v option \<Rightarrow> error + unit" where
  "validate is_empty f raw =
     (if \<not> editable f then Inr ()
      else if \<not> in_empty_values is_empty raw \<and> invalid_choice (choices f) raw
           then Inl (ValidationError [''invalid_choice''])
      else if raw = None \<and> \<not> null f then Inl (ValidationError [''null''])
      else if \<not> blank f \<and> in_empty_values is_empty raw then Inl (ValidationError [''blank''])
      else Inr ())"

text \<open>
  \<^verbatim>\<open>Field.run_validators\<close>: nothing for an empty value; otherwise every validator runs and
  the messages of all that raised are collected.
\<close>

definition messages :: "error + unit \<Rightarrow> string list" where
  "messages r = (case r of Inl (ValidationError ms) \<Rightarrow> ms | _ \<Rightarrow> [])"

definition run_validators :: "('v \<Rightarrow> bool) \<Rightarrow> env \<Rightarrow> 'v field \<Rightarrow> 'v option \<Rightarrow> string list" where
  "run_validators is_empty e f raw =
     (case raw of
        None \<Rightarrow> []
      | Some v \<Rightarrow> if is_empty v then []
                  else concat (map (\<lambda>check. messages (check e v))
                                   (validators f @ class_validators f)))"

text \<open>
  One round of the loop of \<^verbatim>\<open>Model.clean_fields\<close>: a blank-allowed field with an empty
  value is skipped; otherwise \<^verbatim>\<open>Field.clean\<close> runs \<^verbatim>\<open>validate\<close> and, if that did not
  raise, \<^verbatim>\<open>run_validators\<close>. The result is the error list stored under the field's name
  (empty: no entry). Instances hold values of the field's Python type, so \<^verbatim>\<open>to_python\<close>
  changes nothing.
\<close>

definition clean_field :: "('v \<Rightarrow> bool) \<Rightarrow> env \<Rightarrow> 'v field \<Rightarrow> 'v option \<Rightarrow> string list" where
  "clean_field is_empty e f raw =
     (if blank f \<and> in_empty_values is_empty raw then []
      else case validate is_empty f raw of
             Inl err \<Rightarrow> messages (Inl err)
           | Inr u \<Rightarrow> run_validators is_empty e f raw)"

text \<open>
  \<^verbatim>\<open>ForeignKey(to, on_delete=...)\<close>: a field holding the primary key of a row of the
  model \<open>to\<close>, with the policy applied to the referencing row when that row is deleted.
  \<^verbatim>\<open>OneToOneField\<close> is a \<^verbatim>\<open>ForeignKey\<close> with \<^verbatim>\<open>unique=True\<close>.
\<close>

datatype on_delete = CASCADE | SET_NULL

record foreign_key = "nat field" +
  to :: string
  on_delete :: on_delete

definition ForeignKey :: "string \<Rightarrow> on_delete \<Rightarrow> foreign_key" where
  "ForeignKey model policy = field.extend Field \<lparr> to = model, on_delete = policy \<rparr>"

definition OneToOneField :: "string \<Rightarrow> on_delete \<Rightarrow> foreign_key" where
  "OneToOneField model policy = ForeignKey model policy"

text \<open>
  \<^verbatim>\<open>ForeignKey.validate\<close> adds a lookup to \<^verbatim>\<open>Field.validate\<close>: a value that is set must
  be the primary key of a row of the referenced table.
\<close>

definition clean_foreign_key :: "foreign_key \<Rightarrow> nat list \<Rightarrow> nat option \<Rightarrow> string list" where
  "clean_foreign_key f target_pks raw =
     (if blank f \<and> raw = None then []
      else case validate never_empty f raw of
             Inl err \<Rightarrow> messages (Inl err)
           | Inr u \<Rightarrow> (case raw of
                        None \<Rightarrow> []
                      | Some k \<Rightarrow> if k \<in> set target_pks then [] else [''invalid'']))"

text \<open>
  \<^verbatim>\<open>ManyToManyField(to=..., through=...)\<close>: no column of its own; the rows of the
  \<^verbatim>\<open>through\<close> model are the relation.
\<close>

record many_to_many =
  m2m_to :: string
  through :: string

definition ManyToManyField :: "string \<Rightarrow> string \<Rightarrow> many_to_many" where
  "ManyToManyField model through_model = \<lparr> m2m_to = model, through = through_model \<rparr>"

type_synonym error_dict = "(string \<times> string list) list"

definition entry :: "string \<Rightarrow> string list \<Rightarrow> error_dict" where
  "entry name msgs = (if msgs = [] then [] else [(name, msgs)])"

subsection \<open>The models: instances and field declarations\<close>

text \<open>
  An instance is a record of its attributes; any attribute may be \<open>None\<close>. \<open>_id\<close> is the
  primary key (\<open>None\<close> until the first save) and \<open>_adding\<close> is \<^verbatim>\<open>self._state.adding\<close>
  (true for an instance built in Python, false for one loaded from or written to the
  database). A foreign key attribute holds the primary key of the referenced row.
  A \<open>char\<close> of a text value stands for one character. A duration is a number of
  microseconds, a time of day a number of microseconds since midnight, a file its name.
  The selectors of the two association models are prefixed \<open>ram_\<close>
  (RelationshipAuthorMusician) and \<open>ras_\<close> (RelationshipAuthorSong).
\<close>

record Author =
  author_id :: "nat option"
  author_adding :: bool
  author_name :: "string option"
  author_website :: "string option"
  author_first_appearance :: "int option"
  author_last_appearance :: "int option"

definition Author_name :: "string field" where
  "Author_name = CharField 255"

definition Author_website :: "string field" where
  "Author_website = URLField \<lparr> null := True, blank := True \<rparr>"

definition Author_first_appearance :: "int field" where
  "Author_first_appearance = SmallIntegerField
     \<lparr> null := True, blank := True,
       validators := [MinValueValidator (Fixed 1000), MaxValueValidator (Callable get_current_year)] \<rparr>"

definition Author_last_appearance :: "int field" where
  "Author_last_appearance = SmallIntegerField
     \<lparr> null := True, blank := True,
       validators := [MinValueValidator (Fixed 1000), MaxValueValidator (Callable get_current_year)] \<rparr>"

text \<open>
  \<^verbatim>\<open>Author.clean\<close>: \<^verbatim>\<open>if (self.first_appearance and self.last_appearance and
  self.first_appearance > self.last_appearance): raise ValidationError(...)\<close>.
  A year is false in Python when it is \<open>None\<close> or \<open>0\<close>.
\<close>

definition Author_clean :: "Author \<Rightarrow> error + unit" where
  "Author_clean self =
     (case (author_first_appearance self, author_last_appearance self) of
        (Some first_appearance, Some last_appearance) \<Rightarrow>
          if first_appearance \<noteq> 0 \<and> last_appearance \<noteq> 0
             \<and> first_appearance > last_appearance
          then Inl (ValidationError
                 [''The year of first appearance must be equal or lower to the year of last appearance.''])
          else Inr ()
      | _ \<Rightarrow> Inr ())"

record Musician =
  musician_id :: "nat option"
  musician_adding :: bool
  musician_name :: "string option"
  musician_nationality :: "string option"
  musician_instrument :: "string option"
  musician_author :: "nat option"

definition INSTRUMENTS :: "(string \<times> string) list" where
  "INSTRUMENTS =
     [(''piano'', ''Piano''), (''eguitar'', ''Electric Guitar''),
      (''cguitar'', ''Classical Guitar''), (''aguitar'', ''Acoustic Guitar''),
      (''ebass'', ''Electric Bass''), (''bass'', ''Bass''), (''drums'', ''Drums''),
      (''voice'', ''Voice''), (''violin'', ''Violin''), (''harp'', ''Harp''),
      (''handpan'', ''Handpan''), (''tambourine'', ''Tambourine''), (''sax'', ''Saxophone''),
      (''trumpet'', ''Trumpet''), (''trombone'', ''Trombone''), (''flute'', ''Flute''),
      (''clarinet'', ''Clarinet''), (''ukulele'', ''Ukulele'')]"

definition Musician_name :: "string field" where
  "Musician_name = CharField 150"

definition Musician_nationality :: "string field" where
  "Musician_nationality = CharField 2"

definition Musician_instrument :: "string field" where
  "Musician_instrument = CharField 25 \<lparr> choices := Some INSTRUMENTS \<rparr>"

definition Musician_author :: foreign_key where
  "Musician_author = ForeignKey ''Author'' CASCADE"

definition Musician_authors :: many_to_many where
  "Musician_authors = ManyToManyField ''Author'' ''RelationshipAuthorMusician''"

record Album =
  album_id :: "nat option"
  album_adding :: bool
  album_title :: "string option"
  album_year_of_release :: "int option"
  album_produced_by :: "string option"

definition Album_title :: "string field" where
  "Album_title = CharField 255"

definition Album_year_of_release :: "int field" where
  "Album_year_of_release = SmallIntegerField
     \<lparr> validators := [MinValueValidator (Fixed 1000), MaxValueValidator (Callable get_current_year)] \<rparr>"

definition Album_produced_by :: "string field" where
  "Album_produced_by = CharField 255 \<lparr> null := True, blank := True \<rparr>"

record Song =
  song_id :: "nat option"
  song_adding :: bool
  song_audio :: "string option"
  song_title :: "string option"
  song_author :: "nat option"
  song_album :: "nat option"
  song_duration :: "int option"
  song_style :: "string option"
  song_playbacks :: "int option"
  song_price :: "decimal option"
  song_deal_of_the_day :: "bool option"
  song_created :: "datetime option"
  song_created_by :: "nat option"
  song_last_modified :: "datetime option"
  song_last_modified_by :: "nat option"

definition STYLES :: "(string \<times> string) list" where
  "STYLES =
     [(''Indie'', ''Indie''), (''Pop'', ''Pop''), (''Rock'', ''Rock''), (''Funky'', ''Funky''),
      (''Reggaeton'', ''Reggaeton''), (''Classic'', ''Classic''),
      (''Orquestra'', ''Orquestra''), (''Folk'', ''Folk'')]"

text \<open>A \<^verbatim>\<open>FileField\<close> validates like any field; its value is empty when the name is.\<close>

definition Song_audio :: "string field" where
  "Song_audio = Field"

definition Song_title :: "string field" where
  "Song_title = CharField 250"

definition Song_author :: foreign_key where
  "Song_author = ForeignKey ''Author'' SET_NULL \<lparr> null := True, blank := True \<rparr>"

definition Song_album :: foreign_key where
  "Song_album = ForeignKey ''Album'' CASCADE \<lparr> null := True, blank := True \<rparr>"

definition Song_duration :: "int field" where
  "Song_duration = Field"

definition Song_style :: "string field" where
  "Song_style = CharField 20 \<lparr> choices := Some STYLES, null := True, blank := True \<rparr>"

definition Song_playbacks :: "int field" where
  "Song_playbacks = PositiveIntegerField \<lparr> null := True, blank := True \<rparr>"

definition Song_price :: "decimal field" where
  "Song_price = DecimalField 4 2 \<lparr> validators := [\<lambda>e. less_than_five] \<rparr>"

definition Song_deal_of_the_day :: "bool field" where
  "Song_deal_of_the_day = Field"

text \<open>\<^verbatim>\<open>auto_now_add\<close> and \<^verbatim>\<open>auto_now\<close> make a \<^verbatim>\<open>DateTimeField\<close> blank and not editable.\<close>

definition Song_created :: "datetime field" where
  "Song_created = Field \<lparr> editable := False, blank := True \<rparr>"

definition Song_created_by :: foreign_key where
  "Song_created_by = ForeignKey ''AUTH_USER_MODEL'' SET_NULL \<lparr> null := True, blank := True \<rparr>"

definition Song_last_modified :: "datetime field" where
  "Song_last_modified = Field \<lparr> editable := False, blank := True \<rparr>"

definition Song_last_modified_by :: foreign_key where
  "Song_last_modified_by = ForeignKey ''AUTH_USER_MODEL'' SET_NULL \<lparr> null := True, blank := True \<rparr>"

definition Song_authors :: many_to_many where
  "Song_authors = ManyToManyField ''Author'' ''RelationshipAuthorSong''"

text \<open>
  \<^verbatim>\<open>Song.Meta.constraints = [UniqueConstraint(fields=["title", "author", "album",
  "duration"], name="unique_song")]\<close>
\<close>

definition unique_song :: "string list" where
  "unique_song = [''title'', ''author'', ''album'', ''duration'']"

record Profile =
  profile_id :: "nat option"
  profile_adding :: bool
  profile_user :: "nat option"
  profile_daily_start_time :: "nat option"
  profile_daily_finish_time :: "nat option"
  profile_preferred_style :: "string option"
  profile_preferred_song :: "nat option"

definition Profile_user :: foreign_key where
  "Profile_user = OneToOneField ''AUTH_USER_MODEL'' CASCADE"

definition Profile_daily_start_time :: "nat field" where
  "Profile_daily_start_time = Field"

definition Profile_daily_finish_time :: "nat field" where
  "Profile_daily_finish_time = Field"

definition Profile_preferred_style :: "string field" where
  "Profile_preferred_style = CharField 30 \<lparr> choices := Some STYLES \<rparr>"

definition Profile_preferred_song :: foreign_key where
  "Profile_preferred_song = ForeignKey ''Song'' SET_NULL \<lparr> null := True, blank := True \<rparr>"

record RelationshipAuthorMusician =
  ram_id :: "nat option"
  ram_adding :: bool
  ram_author :: "nat option"
  ram_musician :: "nat option"
  ram_start :: "int option"
  ram_end :: "int option"

definition RelationshipAuthorMusician_author :: foreign_key where
  "RelationshipAuthorMusician_author = ForeignKey ''Author'' CASCADE"

definition RelationshipAuthorMusician_musician :: foreign_key where
  "RelationshipAuthorMusician_musician = ForeignKey ''Musician'' CASCADE"

definition RelationshipAuthorMusician_start :: "int field" where
  "RelationshipAuthorMusician_start = SmallIntegerField \<lparr> null := True, blank := True \<rparr>"

definition RelationshipAuthorMusician_end :: "int field" where
  "RelationshipAuthorMusician_end = SmallIntegerField \<lparr> null := True, blank := True \<rparr>"

record RelationshipAuthorSong =
  ras_id :: "nat option"
  ras_adding :: bool
  ras_author :: "nat option"
  ras_song :: "nat option"

definition RelationshipAuthorSong_author :: foreign_key where
  "RelationshipAuthorSong_author = ForeignKey ''Author'' CASCADE"

definition RelationshipAuthorSong_song :: foreign_key where
  "RelationshipAuthorSong_song = ForeignKey ''Song'' CASCADE"

subsection \<open>The database\<close>

text \<open>
  One table per model, a list of rows in insertion order; of the user model
  (\<^verbatim>\<open>settings.AUTH_USER_MODEL\<close>, declared outside this file) only the primary keys.
\<close>

record database =
  users :: "nat list"
  authors :: "Author list"
  musicians :: "Musician list"
  albums :: "Album list"
  songs :: "Song list"
  profiles :: "Profile list"
  relationship_author_musician :: "RelationshipAuthorMusician list"
  relationship_author_song :: "RelationshipAuthorSong list"

definition pks :: "('r \<Rightarrow> nat option) \<Rightarrow> 'r list \<Rightarrow> nat list" where
  "pks pk rows = concat (map (\<lambda>r. case pk r of None \<Rightarrow> [] | Some k \<Rightarrow> [k]) rows)"

subsection \<open>Validation (framework: Model.clean_fields, Model.full_clean)\<close>

text \<open>
  \<^verbatim>\<open>clean_fields\<close> of each model: one entry per field whose \<^verbatim>\<open>clean\<close> raised, in the order
  of the declarations. The automatic primary key is blank-allowed and has no rule of its
  own besides uniqueness, which \<^verbatim>\<open>validate_unique\<close> checks.
\<close>

definition Author_clean_fields :: "env \<Rightarrow> Author \<Rightarrow> error_dict" where
  "Author_clean_fields e self =
     entry ''name'' (clean_field empty_str e Author_name (author_name self))
     @ entry ''website'' (clean_field empty_str e Author_website (author_website self))
     @ entry ''first_appearance''
         (clean_field never_empty e Author_first_appearance (author_first_appearance self))
     @ entry ''last_appearance''
         (clean_field never_empty e Author_last_appearance (author_last_appearance self))"

definition Musician_clean_fields :: "env \<Rightarrow> database \<Rightarrow> Musician \<Rightarrow> error_dict" where
  "Musician_clean_fields e db self =
     entry ''name'' (clean_field empty_str e Musician_name (musician_name self))
     @ entry ''nationality''
         (clean_field empty_str e Musician_nationality (musician_nationality self))
     @ entry ''instrument''
         (clean_field empty_str e Musician_instrument (musician_instrument self))
     @ entry ''author''
         (clean_foreign_key Musician_author (pks author_id (authors db)) (musician_author self))"

definition Album_clean_fields :: "env \<Rightarrow> Album \<Rightarrow> error_dict" where
  "Album_clean_fields e self =
     entry ''title'' (clean_field empty_str e Album_title (album_title self))
     @ entry ''year_of_release''
         (clean_field never_empty e Album_year_of_release (album_year_of_release self))
     @ entry ''produced_by'' (clean_field empty_str e Album_produced_by (album_produced_by self))"

definition Song_clean_fields :: "env \<Rightarrow> database \<Rightarrow> Song \<Rightarrow> error_dict" where
  "Song_clean_fields e db self =
     entry ''audio'' (clean_field empty_str e Song_audio (song_audio self))
     @ entry ''title'' (clean_field empty_str e Song_title (song_title self))
     @ entry ''author''
         (clean_foreign_key Song_author (pks author_id (authors db)) (song_author self))
     @ entry ''album''
         (clean_foreign_key Song_album (pks album_id (albums db)) (song_album self))
     @ entry ''duration'' (clean_field never_empty e Song_duration (song_duration self))
     @ entry ''style'' (clean_field empty_str e Song_style (song_style self))
     @ entry ''playbacks'' (clean_field never_empty e Song_playbacks (song_playbacks self))
     @ entry ''price'' (clean_field never_empty e Song_price (song_price self))
     @ entry ''deal_of_the_day''
         (clean_field never_empty e Song_deal_of_the_day (song_deal_of_the_day self))
     @ entry ''created'' (clean_field never_empty e Song_created (song_created self))
     @ entry ''created_by''
         (clean_foreign_key Song_created_by (users db) (song_created_by self))
     @ entry ''last_modified''
         (clean_field never_empty e Song_last_modified (song_last_modified self))
     @ entry ''last_modified_by''
         (clean_foreign_key Song_last_modified_by (users db) (song_last_modified_by self))"

definition Profile_clean_fields :: "env \<Rightarrow> database \<Rightarrow> Profile \<Rightarrow> error_dict" where
  "Profile_clean_fields e db self =
     entry ''user'' (clean_foreign_key Profile_user (users db) (profile_user self))
     @ entry ''daily_start_time''
         (clean_field never_empty e Profile_daily_start_time (profile_daily_start_time self))
     @ entry ''daily_finish_time''
         (clean_field never_empty e Profile_daily_finish_time (profile_daily_finish_time self))
     @ entry ''preferred_style''
         (clean_field empty_str e Profile_preferred_style (profile_preferred_style self))
     @ entry ''preferred_song''
         (clean_foreign_key Profile_preferred_song (pks song_id (songs db))
            (profile_preferred_song self))"

definition RelationshipAuthorMusician_clean_fields ::
  "env \<Rightarrow> database \<Rightarrow> RelationshipAuthorMusician \<Rightarrow> error_dict" where
  "RelationshipAuthorMusician_clean_fields e db self =
     entry ''author''
       (clean_foreign_key RelationshipAuthorMusician_author (pks author_id (authors db))
          (ram_author self))
     @ entry ''musician''
         (clean_foreign_key RelationshipAuthorMusician_musician
            (pks musician_id (musicians db)) (ram_musician self))
     @ entry ''start'' (clean_field never_empty e RelationshipAuthorMusician_start (ram_start self))
     @ entry ''end'' (clean_field never_empty e RelationshipAuthorMusician_end (ram_end self))"

definition RelationshipAuthorSong_clean_fields ::
  "env \<Rightarrow> database \<Rightarrow> RelationshipAuthorSong \<Rightarrow> error_dict" where
  "RelationshipAuthorSong_clean_fields e db self =
     entry ''author''
       (clean_foreign_key RelationshipAuthorSong_author (pks author_id (authors db))
          (ras_author self))
     @ entry ''song''
         (clean_foreign_key RelationshipAuthorSong_song (pks song_id (songs db))
            (ras_song self))"

text \<open>\<^verbatim>\<open>Model.clean\<close>, which every model but Author inherits, does nothing.\<close>

definition Model_clean :: "error + unit" where
  "Model_clean = Inr ()"

text \<open>
  \<^verbatim>\<open>validate_unique\<close>, the primary key: looked up only for an instance that is being added
  and has a key. \<open>exclude\<close> holds the names of the fields that already have an error.
\<close>

definition unique_pk :: "bool \<Rightarrow> nat option \<Rightarrow> nat list \<Rightarrow> string list \<Rightarrow> error_dict" where
  "unique_pk adding pk table_pks exclude =
     (case pk of
        None \<Rightarrow> []
      | Some k \<Rightarrow> if adding \<and> ''id'' \<notin> set exclude \<and> k \<in> set table_pks
                  then [(''id'', [''unique''])] else [])"

text \<open>
  The rows a uniqueness lookup compares with: all rows, without the instance's own row when
  the instance is not being added and has a key.
\<close>

definition others :: "bool \<Rightarrow> nat option \<Rightarrow> ('r \<Rightarrow> nat option) \<Rightarrow> 'r list \<Rightarrow> 'r list" where
  "others adding pk row_pk rows =
     (if \<not> adding \<and> pk \<noteq> None then filter (\<lambda>r. row_pk r \<noteq> pk) rows else rows)"

text \<open>\<^verbatim>\<open>Profile.user\<close> is a \<^verbatim>\<open>OneToOneField\<close>, hence unique.\<close>

definition Profile_validate_unique :: "database \<Rightarrow> Profile \<Rightarrow> string list \<Rightarrow> error_dict" where
  "Profile_validate_unique db self exclude =
     unique_pk (profile_adding self) (profile_id self) (pks profile_id (profiles db)) exclude
     @ (if ''user'' \<in> set exclude \<or> profile_user self = None then []
        else if filter (\<lambda>r. profile_user r = profile_user self)
                  (others (profile_adding self) (profile_id self) profile_id (profiles db)) \<noteq> []
        then [(''user'', [''unique''])] else [])"

text \<open>
  \<^verbatim>\<open>UniqueConstraint.validate\<close> for \<open>unique_song\<close>: no check when one of the four fields
  already has an error, and none when one of the four values is \<open>None\<close> (Django: ``a
  composite constraint containing NULL value cannot cause a violation since NULL != NULL
  in SQL''); otherwise a row with the same four values, other than the instance's own, is
  a violation, reported under \<open>NON_FIELD_ERRORS\<close>.
\<close>

definition same_unique_song :: "Song \<Rightarrow> Song \<Rightarrow> bool" where
  "same_unique_song self r =
     (song_title r = song_title self \<and> song_author r = song_author self
      \<and> song_album r = song_album self \<and> song_duration r = song_duration self)"

definition has_null_unique_song :: "Song \<Rightarrow> bool" where
  "has_null_unique_song self =
     (song_title self = None \<or> song_author self = None \<or> song_album self = None
      \<or> song_duration self = None)"

definition Song_validate_constraints :: "database \<Rightarrow> Song \<Rightarrow> string list \<Rightarrow> error_dict" where
  "Song_validate_constraints db self exclude =
     (if filter (\<lambda>name. name \<in> set exclude) unique_song \<noteq> [] then []
      else if has_null_unique_song self then []
      else if filter (same_unique_song self)
                (others (song_adding self) (song_id self) song_id (songs db)) \<noteq> []
      then [(NON_FIELD_ERRORS, [''unique_together''])]
      else [])"

text \<open>
  \<^verbatim>\<open>Model.full_clean\<close>: \<^verbatim>\<open>clean_fields\<close>, then \<^verbatim>\<open>clean\<close> (also when a field failed), then
  \<^verbatim>\<open>validate_unique\<close> and \<^verbatim>\<open>validate_constraints\<close>, each without the fields that have
  an error so far. All errors are collected; if there is any, one \<^verbatim>\<open>ValidationError\<close>
  holding them all is raised.
\<close>

definition failed_fields :: "error_dict \<Rightarrow> string list" where
  "failed_fields errors = filter (\<lambda>name. name \<noteq> NON_FIELD_ERRORS) (map fst errors)"

definition full_clean ::
  "error_dict \<Rightarrow> error + unit \<Rightarrow> (string list \<Rightarrow> error_dict) \<Rightarrow> (string list \<Rightarrow> error_dict)
     \<Rightarrow> error + unit" where
  "full_clean field_errors cleaned validate_unique validate_constraints =
     (let errors1 = field_errors @ entry NON_FIELD_ERRORS (messages cleaned);
          errors2 = errors1 @ validate_unique (failed_fields errors1);
          errors3 = errors2 @ validate_constraints (failed_fields errors2)
      in if errors3 = [] then Inr () else Inl (ValidationErrorDict errors3))"

definition Author_full_clean :: "env \<Rightarrow> database \<Rightarrow> Author \<Rightarrow> error + unit" where
  "Author_full_clean e db self =
     full_clean (Author_clean_fields e self) (Author_clean self)
       (unique_pk (author_adding self) (author_id self) (pks author_id (authors db)))
       (\<lambda>exclude. [])"

definition Musician_full_clean :: "env \<Rightarrow> database \<Rightarrow> Musician \<Rightarrow> error + unit" where
  "Musician_full_clean e db self =
     full_clean (Musician_clean_fields e db self) Model_clean
       (unique_pk (musician_adding self) (musician_id self) (pks musician_id (musicians db)))
       (\<lambda>exclude. [])"

definition Album_full_clean :: "env \<Rightarrow> database \<Rightarrow> Album \<Rightarrow> error + unit" where
  "Album_full_clean e db self =
     full_clean (Album_clean_fields e self) Model_clean
       (unique_pk (album_adding self) (album_id self) (pks album_id (albums db)))
       (\<lambda>exclude. [])"

definition Song_full_clean :: "env \<Rightarrow> database \<Rightarrow> Song \<Rightarrow> error + unit" where
  "Song_full_clean e db self =
     full_clean (Song_clean_fields e db self) Model_clean
       (unique_pk (song_adding self) (song_id self) (pks song_id (songs db)))
       (Song_validate_constraints db self)"

definition Profile_full_clean :: "env \<Rightarrow> database \<Rightarrow> Profile \<Rightarrow> error + unit" where
  "Profile_full_clean e db self =
     full_clean (Profile_clean_fields e db self) Model_clean
       (Profile_validate_unique db self) (\<lambda>exclude. [])"

definition RelationshipAuthorMusician_full_clean ::
  "env \<Rightarrow> database \<Rightarrow> RelationshipAuthorMusician \<Rightarrow> error + unit" where
  "RelationshipAuthorMusician_full_clean e db self =
     full_clean (RelationshipAuthorMusician_clean_fields e db self) Model_clean
       (unique_pk (ram_adding self) (ram_id self) (pks ram_id (relationship_author_musician db)))
       (\<lambda>exclude. [])"

definition RelationshipAuthorSong_full_clean ::
  "env \<Rightarrow> database \<Rightarrow> RelationshipAuthorSong \<Rightarrow> error + unit" where
  "RelationshipAuthorSong_full_clean e db self =
     full_clean (RelationshipAuthorSong_clean_fields e db self) Model_clean
       (unique_pk (ras_adding self) (ras_id self) (pks ras_id (relationship_author_song db)))
       (\<lambda>exclude. [])"

subsection \<open>Writing (framework: Model.save)\<close>

text \<open>
  What the database itself enforces when a row is written: a foreign key that is set must
  name an existing row, and a unique index must not be violated. As in SQL, a row with a
  \<open>NULL\<close> among the columns of a unique index never conflicts with another row.
\<close>

definition fk_ok :: "nat list \<Rightarrow> nat option \<Rightarrow> bool" where
  "fk_ok target_pks v = (case v of None \<Rightarrow> True | Some k \<Rightarrow> k \<in> set target_pks)"

definition integrity :: "bool \<Rightarrow> string \<Rightarrow> error option" where
  "integrity ok what = (if ok then None else Some (IntegrityError what))"

definition Musician_integrity :: "database \<Rightarrow> Musician \<Rightarrow> error option" where
  "Musician_integrity db row =
     integrity (fk_ok (pks author_id (authors db)) (musician_author row)) ''FOREIGN KEY''"

definition Song_integrity :: "database \<Rightarrow> Song \<Rightarrow> error option" where
  "Song_integrity db row =
     (if \<not> (fk_ok (pks author_id (authors db)) (song_author row)
             \<and> fk_ok (pks album_id (albums db)) (song_album row)
             \<and> fk_ok (users db) (song_created_by row)
             \<and> fk_ok (users db) (song_last_modified_by row))
      then Some (IntegrityError ''FOREIGN KEY'')
      else integrity
             (has_null_unique_song row
              \<or> filter (same_unique_song row)
                    (filter (\<lambda>r. song_id r \<noteq> song_id row) (songs db)) = [])
             ''unique_song'')"

definition Profile_integrity :: "database \<Rightarrow> Profile \<Rightarrow> error option" where
  "Profile_integrity db row =
     (if \<not> (fk_ok (users db) (profile_user row)
             \<and> fk_ok (pks song_id (songs db)) (profile_preferred_song row))
      then Some (IntegrityError ''FOREIGN KEY'')
      else integrity
             (profile_user row = None
              \<or> filter (\<lambda>r. profile_user r = profile_user row)
                    (filter (\<lambda>r. profile_id r \<noteq> profile_id row) (profiles db)) = [])
             ''UNIQUE user'')"

definition RelationshipAuthorMusician_integrity ::
  "database \<Rightarrow> RelationshipAuthorMusician \<Rightarrow> error option" where
  "RelationshipAuthorMusician_integrity db row =
     integrity (fk_ok (pks author_id (authors db)) (ram_author row)
                \<and> fk_ok (pks musician_id (musicians db)) (ram_musician row)) ''FOREIGN KEY''"

definition RelationshipAuthorSong_integrity ::
  "database \<Rightarrow> RelationshipAuthorSong \<Rightarrow> error option" where
  "RelationshipAuthorSong_integrity db row =
     integrity (fk_ok (pks author_id (authors db)) (ras_author row)
                \<and> fk_ok (pks song_id (songs db)) (ras_song row)) ''FOREIGN KEY''"

text \<open>
  \<^verbatim>\<open>Model.save\<close> on one table: an instance whose key names an existing row updates that
  row; any other instance is inserted, under its own key if it has one and under a fresh
  key otherwise. \<open>pre_save key add\<close> gives the row that is written: the instance with
  its key, \<open>_adding\<close> cleared and the automatic timestamps set (\<open>add\<close> tells an insert
  from an update). A constraint violation raises and leaves the table as it was.
\<close>

definition next_pk :: "nat list \<Rightarrow> nat" where
  "next_pk ks = Suc (fold max ks 0)"

definition Model_save ::
  "('r \<Rightarrow> nat option) \<Rightarrow> (nat \<Rightarrow> bool \<Rightarrow> 'r \<Rightarrow> 'r) \<Rightarrow> ('r \<Rightarrow> error option)
     \<Rightarrow> 'r list \<Rightarrow> 'r \<Rightarrow> (error + 'r) \<times> 'r list" where
  "Model_save pk pre_save constraints rows self =
     (let key = (case pk self of Some k \<Rightarrow> k | None \<Rightarrow> next_pk (pks pk rows));
          add = (key \<notin> set (pks pk rows));
          row = pre_save key add self
      in case constraints row of
           Some err \<Rightarrow> (Inl err, rows)
         | None \<Rightarrow> (Inr row, if add then rows @ [row]
                              else map (\<lambda>r. if pk r = Some key then row else r) rows))"

definition Author_Model_save :: "env \<Rightarrow> database \<Rightarrow> Author \<Rightarrow> (error + Author) \<times> database" where
  "Author_Model_save e db self =
     (case Model_save author_id
             (\<lambda>key add r. r \<lparr> author_id := Some key, author_adding := False \<rparr>)
             (\<lambda>row. None) (authors db) self of
        (result, rows) \<Rightarrow> (result, db \<lparr> authors := rows \<rparr>))"

definition Musician_Model_save ::
  "env \<Rightarrow> database \<Rightarrow> Musician \<Rightarrow> (error + Musician) \<times> database" where
  "Musician_Model_save e db self =
     (case Model_save musician_id
             (\<lambda>key add r. r \<lparr> musician_id := Some key, musician_adding := False \<rparr>)
             (Musician_integrity db) (musicians db) self of
        (result, rows) \<Rightarrow> (result, db \<lparr> musicians := rows \<rparr>))"

definition Album_Model_save :: "env \<Rightarrow> database \<Rightarrow> Album \<Rightarrow> (error + Album) \<times> database" where
  "Album_Model_save e db self =
     (case Model_save album_id
             (\<lambda>key add r. r \<lparr> album_id := Some key, album_adding := False \<rparr>)
             (\<lambda>row. None) (albums db) self of
        (result, rows) \<Rightarrow> (result, db \<lparr> albums := rows \<rparr>))"

text \<open>
  \<^verbatim>\<open>created\<close> (\<^verbatim>\<open>auto_now_add\<close>) is set when the row is inserted, \<^verbatim>\<open>last_modified\<close>
  (\<^verbatim>\<open>auto_now\<close>) on every save.
\<close>

definition Song_pre_save :: "env \<Rightarrow> nat \<Rightarrow> bool \<Rightarrow> Song \<Rightarrow> Song" where
  "Song_pre_save e key add r =
     r \<lparr> song_id := Some key, song_adding := False,
         song_created := (if add then Some (today e) else song_created r),
         song_last_modified := Some (today e) \<rparr>"

definition Song_Model_save :: "env \<Rightarrow> database \<Rightarrow> Song \<Rightarrow> (error + Song) \<times> database" where
  "Song_Model_save e db self =
     (case Model_save song_id (Song_pre_save e) (Song_integrity db) (songs db) self of
        (result, rows) \<Rightarrow> (result, db \<lparr> songs := rows \<rparr>))"

definition Profile_Model_save ::
  "env \<Rightarrow> database \<Rightarrow> Profile \<Rightarrow> (error + Profile) \<times> database" where
  "Profile_Model_save e db self =
     (case Model_save profile_id
             (\<lambda>key add r. r \<lparr> profile_id := Some key, profile_adding := False \<rparr>)
             (Profile_integrity db) (profiles db) self of
        (result, rows) \<Rightarrow> (result, db \<lparr> profiles := rows \<rparr>))"

definition RelationshipAuthorMusician_Model_save ::
  "env \<Rightarrow> database \<Rightarrow> RelationshipAuthorMusician
     \<Rightarrow> (error + RelationshipAuthorMusician) \<times> database" where
  "RelationshipAuthorMusician_Model_save e db self =
     (case Model_save ram_id
             (\<lambda>key add r. r \<lparr> ram_id := Some key, ram_adding := False \<rparr>)
             (RelationshipAuthorMusician_integrity db) (relationship_author_musician db) self of
        (result, rows) \<Rightarrow> (result, db \<lparr> relationship_author_musician := rows \<rparr>))"

definition RelationshipAuthorSong_Model_save ::
  "env \<Rightarrow> database \<Rightarrow> RelationshipAuthorSong
     \<Rightarrow> (error + RelationshipAuthorSong) \<times> database" where
  "RelationshipAuthorSong_Model_save e db self =
     (case Model_save ras_id
             (\<lambda>key add r. r \<lparr> ras_id := Some key, ras_adding := False \<rparr>)
             (RelationshipAuthorSong_integrity db) (relationship_author_song db) self of
        (result, rows) \<Rightarrow> (result, db \<lparr> relationship_author_song := rows \<rparr>))"

subsection \<open>ValidatedModel\<close>

text \<open>
  \<^verbatim>\<open>def save(self, *args, **kwargs): self.full_clean(); super().save(*args, **kwargs)\<close>.
  The exception of \<^verbatim>\<open>full_clean\<close> leaves \<^verbatim>\<open>save\<close> before \<^verbatim>\<open>super().save\<close> is reached.
  The two methods are those of the class of \<open>self\<close>; the result is the instance as the
  call leaves it, next to the database.
\<close>

definition ValidatedModel_save ::
  "('m \<Rightarrow> error + unit) \<Rightarrow> ('m \<Rightarrow> (error + 'm) \<times> database) \<Rightarrow> database \<Rightarrow> 'm
     \<Rightarrow> (error + 'm) \<times> database" where
  "ValidatedModel_save self_full_clean super_save db self =
     (case self_full_clean self of
        Inl err \<Rightarrow> (Inl err, db)
      | Inr u \<Rightarrow> super_save self)"

definition Author_save :: "env \<Rightarrow> database \<Rightarrow> Author \<Rightarrow> (error + Author) \<times> database" where
  "Author_save e db = ValidatedModel_save (Author_full_clean e db) (Author_Model_save e db) db"

definition Musician_save :: "env \<Rightarrow> database \<Rightarrow> Musician \<Rightarrow> (error + Musician) \<times> database" where
  "Musician_save e db =
     ValidatedModel_save (Musician_full_clean e db) (Musician_Model_save e db) db"

definition Album_save :: "env \<Rightarrow> database \<Rightarrow> Album \<Rightarrow> (error + Album) \<times> database" where
  "Album_save e db = ValidatedModel_save (Album_full_clean e db) (Album_Model_save e db) db"

definition Song_save :: "env \<Rightarrow> database \<Rightarrow> Song \<Rightarrow> (error + Song) \<times> database" where
  "Song_save e db = ValidatedModel_save (Song_full_clean e db) (Song_Model_save e db) db"

definition Profile_save :: "env \<Rightarrow> database \<Rightarrow> Profile \<Rightarrow> (error + Profile) \<times> database" where
  "Profile_save e db =
     ValidatedModel_save (Profile_full_clean e db) (Profile_Model_save e db) db"

definition RelationshipAuthorMusician_save ::
  "env \<Rightarrow> database \<Rightarrow> RelationshipAuthorMusician
     \<Rightarrow> (error + RelationshipAuthorMusician) \<times> database" where
  "RelationshipAuthorMusician_save e db =
     ValidatedModel_save (RelationshipAuthorMusician_full_clean e db)
       (RelationshipAuthorMusician_Model_save e db) db"

definition RelationshipAuthorSong_save ::
  "env \<Rightarrow> database \<Rightarrow> RelationshipAuthorSong
     \<Rightarrow> (error + RelationshipAuthorSong) \<times> database" where
  "RelationshipAuthorSong_save e db =
     ValidatedModel_save (RelationshipAuthorSong_full_clean e db)
       (RelationshipAuthorSong_Model_save e db) db"

text \<open>An instance of any of the seven concrete models, with the methods of its class.\<close>

datatype entity =
    AnAuthor Author
  | AMusician Musician
  | AnAlbum Album
  | ASong Song
  | AProfile Profile
  | ARelationshipAuthorMusician RelationshipAuthorMusician
  | ARelationshipAuthorSong RelationshipAuthorSong

fun entity_full_clean :: "env \<Rightarrow> database \<Rightarrow> entity \<Rightarrow> error + unit" where
  "entity_full_clean e db (AnAuthor self) = Author_full_clean e db self"
| "entity_full_clean e db (AMusician self) = Musician_full_clean e db self"
| "entity_full_clean e db (AnAlbum self) = Album_full_clean e db self"
| "entity_full_clean e db (ASong self) = Song_full_clean e db self"
| "entity_full_clean e db (AProfile self) = Profile_full_clean e db self"
| "entity_full_clean e db (ARelationshipAuthorMusician self) =
     RelationshipAuthorMusician_full_clean e db self"
| "entity_full_clean e db (ARelationshipAuthorSong self) =
     RelationshipAuthorSong_full_clean e db self"

definition wrapped :: "('m \<Rightarrow> entity) \<Rightarrow> (error + 'm) \<times> database \<Rightarrow> (error + entity) \<times> database" where
  "wrapped C r = (case r of (Inl err, db) \<Rightarrow> (Inl err, db) | (Inr m, db) \<Rightarrow> (Inr (C m), db))"

fun save :: "env \<Rightarrow> database \<Rightarrow> entity \<Rightarrow> (error + entity) \<times> database" where
  "save e db (AnAuthor self) = wrapped AnAuthor (Author_save e db self)"
| "save e db (AMusician self) = wrapped AMusician (Musician_save e db self)"
| "save e db (AnAlbum self) = wrapped AnAlbum (Album_save e db self)"
| "save e db (ASong self) = wrapped ASong (Song_save e db self)"
| "save e db (AProfile self) = wrapped AProfile (Profile_save e db self)"
| "save e db (ARelationshipAuthorMusician self) =
     wrapped ARelationshipAuthorMusician (RelationshipAuthorMusician_save e db self)"
| "save e db (ARelationshipAuthorSong self) =
     wrapped ARelationshipAuthorSong (RelationshipAuthorSong_save e db self)"

subsection \<open>Deletion (framework: Model.delete and the collector)\<close>

text \<open>
  Deleting rows of a model visits every foreign key that points to the model and applies
  its \<^verbatim>\<open>on_delete\<close>: \<open>CASCADE\<close> deletes the referencing rows (and so visits the keys
  pointing to \<^emph>\<open>their\<close> model in turn), \<open>SET_NULL\<close> writes \<open>None\<close> into the referencing
  column with an update query, which does not call \<^verbatim>\<open>save\<close>. \<open>propagate\<close> is one such
  visit; it reads the policy from the declaration of the key.
\<close>

definition referencing :: "('r \<Rightarrow> nat option) \<Rightarrow> nat list \<Rightarrow> 'r \<Rightarrow> bool" where
  "referencing fk ks r = (case fk r of None \<Rightarrow> False | Some k \<Rightarrow> k \<in> set ks)"

definition remove :: "('r \<Rightarrow> nat option) \<Rightarrow> nat list \<Rightarrow> 'r list \<Rightarrow> 'r list" where
  "remove pk ks rows = filter (\<lambda>r. \<not> referencing pk ks r) rows"

definition propagate ::
  "foreign_key \<Rightarrow> ('r \<Rightarrow> nat option) \<Rightarrow> ('r \<Rightarrow> nat option) \<Rightarrow> ('r \<Rightarrow> 'r)
     \<Rightarrow> (database \<Rightarrow> 'r list) \<Rightarrow> ('r list \<Rightarrow> database \<Rightarrow> database)
     \<Rightarrow> (nat list \<Rightarrow> database \<Rightarrow> database) \<Rightarrow> nat list \<Rightarrow> database \<Rightarrow> database" where
  "propagate key fk pk set_null table put delete_rows ks db =
     (case on_delete key of
        CASCADE \<Rightarrow> delete_rows (pks pk (filter (referencing fk ks) (table db))) db
      | SET_NULL \<Rightarrow>
          put (map (\<lambda>r. if referencing fk ks r then set_null r else r) (table db)) db)"

text \<open>No foreign key points to Profile or to the two association models.\<close>

definition delete_profiles :: "nat list \<Rightarrow> database \<Rightarrow> database" where
  "delete_profiles ks db = db \<lparr> profiles := remove profile_id ks (profiles db) \<rparr>"

definition delete_relationship_author_musician :: "nat list \<Rightarrow> database \<Rightarrow> database" where
  "delete_relationship_author_musician ks db =
     db \<lparr> relationship_author_musician := remove ram_id ks (relationship_author_musician db) \<rparr>"

definition delete_relationship_author_song :: "nat list \<Rightarrow> database \<Rightarrow> database" where
  "delete_relationship_author_song ks db =
     db \<lparr> relationship_author_song := remove ras_id ks (relationship_author_song db) \<rparr>"

text \<open>Song is referenced by \<^verbatim>\<open>RelationshipAuthorSong.song\<close> and \<^verbatim>\<open>Profile.preferred_song\<close>.\<close>

definition delete_songs :: "nat list \<Rightarrow> database \<Rightarrow> database" where
  "delete_songs ks db =
     propagate Profile_preferred_song profile_preferred_song profile_id
       (\<lambda>r. r \<lparr> profile_preferred_song := None \<rparr>)
       profiles (\<lambda>rows d. d \<lparr> profiles := rows \<rparr>) delete_profiles ks
       (propagate RelationshipAuthorSong_song ras_song ras_id (\<lambda>r. r \<lparr> ras_song := None \<rparr>)
          relationship_author_song (\<lambda>rows d. d \<lparr> relationship_author_song := rows \<rparr>)
          delete_relationship_author_song ks
          (db \<lparr> songs := remove song_id ks (songs db) \<rparr>))"

text \<open>Musician is referenced by \<^verbatim>\<open>RelationshipAuthorMusician.musician\<close>.\<close>

definition delete_musicians :: "nat list \<Rightarrow> database \<Rightarrow> database" where
  "delete_musicians ks db =
     propagate RelationshipAuthorMusician_musician ram_musician ram_id
       (\<lambda>r. r \<lparr> ram_musician := None \<rparr>)
       relationship_author_musician (\<lambda>rows d. d \<lparr> relationship_author_musician := rows \<rparr>)
       delete_relationship_author_musician ks
       (db \<lparr> musicians := remove musician_id ks (musicians db) \<rparr>)"

text \<open>Album is referenced by \<^verbatim>\<open>Song.album\<close>.\<close>

definition delete_albums :: "nat list \<Rightarrow> database \<Rightarrow> database" where
  "delete_albums ks db =
     propagate Song_album song_album song_id (\<lambda>r. r \<lparr> song_album := None \<rparr>)
       songs (\<lambda>rows d. d \<lparr> songs := rows \<rparr>) delete_songs ks
       (db \<lparr> albums := remove album_id ks (albums db) \<rparr>)"

text \<open>
  Author is referenced by \<^verbatim>\<open>Musician.author\<close>, \<^verbatim>\<open>Song.author\<close>,
  \<^verbatim>\<open>RelationshipAuthorMusician.author\<close> and \<^verbatim>\<open>RelationshipAuthorSong.author\<close>.
\<close>

definition delete_authors :: "nat list \<Rightarrow> database \<Rightarrow> database" where
  "delete_authors ks db =
     propagate RelationshipAuthorSong_author ras_author ras_id (\<lambda>r. r \<lparr> ras_author := None \<rparr>)
       relationship_author_song (\<lambda>rows d. d \<lparr> relationship_author_song := rows \<rparr>)
       delete_relationship_author_song ks
       (propagate RelationshipAuthorMusician_author ram_author ram_id
          (\<lambda>r. r \<lparr> ram_author := None \<rparr>)
          relationship_author_musician (\<lambda>rows d. d \<lparr> relationship_author_musician := rows \<rparr>)
          delete_relationship_author_musician ks
          (propagate Song_author song_author song_id (\<lambda>r. r \<lparr> song_author := None \<rparr>)
             songs (\<lambda>rows d. d \<lparr> songs := rows \<rparr>) delete_songs ks
             (propagate Musician_author musician_author musician_id
                (\<lambda>r. r \<lparr> musician_author := None \<rparr>)
                musicians (\<lambda>rows d. d \<lparr> musicians := rows \<rparr>) delete_musicians ks
                (db \<lparr> authors := remove author_id ks (authors db) \<rparr>))))"

text \<open>\<^verbatim>\<open>instance.delete()\<close>: an instance without a primary key cannot be deleted.\<close>

definition Author_delete :: "database \<Rightarrow> Author \<Rightarrow> error + database" where
  "Author_delete db self =
     (case author_id self of
        None \<Rightarrow> Inl (ValueError ''Author object can't be deleted because its id attribute is set to None.'')
      | Some k \<Rightarrow> Inr (delete_authors [k] db))"

definition Album_delete :: "database \<Rightarrow> Album \<Rightarrow> error + database" where
  "Album_delete db self =
     (case album_id self of
        None \<Rightarrow> Inl (ValueError ''Album object can't be deleted because its id attribute is set to None.'')
      | Some k \<Rightarrow> Inr (delete_albums [k] db))"

subsection \<open>The many-to-many relation Song.authors (framework: ManyRelatedManager)\<close>





text \<open>
  The join of \<^verbatim>\<open>all()\<close> over a given list of rows of the \<^verbatim>\<open>through\<close> model, used to
  describe the result of \<^verbatim>\<open>Song_authors_all\<close> piecewise.
\<close>

definition related :: "database \<Rightarrow> nat \<Rightarrow> RelationshipAuthorSong list \<Rightarrow> Author list" where
  "related db source rows =
     concat (map (\<lambda>r. filter (\<lambda>a. author_id a \<noteq> None \<and> author_id a = ras_author r) (authors db))
                 (filter (\<lambda>r. ras_song r = Some source) rows))"

subsection \<open>Table invariant\<close>

text \<open>
  The primary key of a table: every row has a key and no two rows share one.
\<close>

definition primary_keys :: "('r \<Rightarrow> nat option) \<Rightarrow> 'r list \<Rightarrow> bool" where
  "primary_keys pk rows = (None \<notin> set (map pk rows) \<and> distinct (map pk rows))"

subsection \<open>Example data\<close>

text \<open>
  A clock that reads 4 November 2026, a \<^verbatim>\<open>URLValidator\<close> that accepts every address, and
  an empty database; the instances and databases the closed examples below are run on.
\<close>

definition example_today :: datetime where
  "example_today = \<lparr> year = Abs_year 2026, month = 11, day = 4, hour = 0, minute = 0,
                       second = 0, microsecond = 0 \<rparr>"

definition example_env :: env where
  "example_env = \<lparr> today = example_today, url_valid = (\<lambda>url. True) \<rparr>"

definition empty_db :: database where
  "empty_db = \<lparr> users = [], authors = [], musicians = [], albums = [], songs = [],
                  profiles = [], relationship_author_musician = [],
                  relationship_author_song = [] \<rparr>"

definition author_queen :: Author where
  "author_queen = \<lparr> author_id = None, author_adding = True, author_name = Some ''Queen'',
                      author_website = None, author_first_appearance = Some 1970,
                      author_last_appearance = Some 1991 \<rparr>"

definition author_backwards :: Author where
  "author_backwards = author_queen \<lparr> author_first_appearance := Some 1991,
                                      author_last_appearance := Some 1970 \<rparr>"

definition next_year_env :: env where
  "next_year_env = example_env \<lparr> today := example_today \<lparr> year := Abs_year 2027 \<rparr> \<rparr>"

definition author_future :: Author where
  "author_future = author_queen \<lparr> author_last_appearance := Some 2027 \<rparr>"

definition album_ancient :: Album where
  "album_ancient = \<lparr> album_id = None, album_adding = True, album_title = Some ''Chants'',
      album_year_of_release = Some 999, album_produced_by = None \<rparr>"

definition decimal_of :: "nat \<Rightarrow> int \<Rightarrow> decimal" where
  "decimal_of c x = \<lparr> negative = False, coefficient = c, exponent = x \<rparr>"

definition song_intro :: Song where
  "song_intro = \<lparr> song_id = None, song_adding = True, song_audio = Some ''audio/intro.mp3'',
      song_title = Some ''Intro'', song_author = None, song_album = None,
      song_duration = Some 60000000, song_style = None, song_playbacks = None,
      song_price = Some (decimal_of 99 (- 2)), song_deal_of_the_day = Some False,
      song_created = None, song_created_by = None, song_last_modified = None,
      song_last_modified_by = None \<rparr>"

definition song_expensive :: Song where
  "song_expensive = song_intro \<lparr> song_price := Some (decimal_of 500 (- 2)) \<rparr>"

definition song_intro_saved :: "nat \<Rightarrow> Song" where
  "song_intro_saved k = song_intro \<lparr> song_id := Some k, song_adding := False,
      song_created := Some example_today, song_last_modified := Some example_today \<rparr>"

definition queen_row :: Author where
  "queen_row = author_queen \<lparr> author_id := Some 1, author_adding := False \<rparr>"

definition musician_may :: Musician where
  "musician_may = \<lparr> musician_id = None, musician_adding = True,
      musician_name = Some ''Brian May'', musician_nationality = Some ''GB'',
      musician_instrument = Some ''eguitar'', musician_author = Some 1 \<rparr>"

definition may_row :: Musician where
  "may_row = musician_may \<lparr> musician_id := Some 1, musician_adding := False \<rparr>"

definition opera_row :: Album where
  "opera_row = \<lparr> album_id = Some 1, album_adding = False,
      album_title = Some ''A Night at the Opera'', album_year_of_release = Some 1975,
      album_produced_by = None \<rparr>"

definition song_rhapsody :: Song where
  "song_rhapsody = song_intro \<lparr> song_title := Some ''Bohemian Rhapsody'',
      song_author := Some 1, song_album := Some 1, song_duration := Some 354000000 \<rparr>"

definition rhapsody_row :: Song where
  "rhapsody_row = song_rhapsody \<lparr> song_id := Some 1, song_adding := False,
      song_created := Some example_today, song_last_modified := Some example_today \<rparr>"

definition catalogue_db :: database where
  "catalogue_db = empty_db \<lparr> authors := [queen_row], musicians := [may_row],
      albums := [opera_row], songs := [rhapsody_row] \<rparr>"

definition musician_short :: Musician where
  "musician_short = musician_may \<lparr> musician_nationality := Some ''D'' \<rparr>"

definition membership_early :: RelationshipAuthorMusician where
  "membership_early = \<lparr> ram_id = None, ram_adding = True, ram_author = Some 1,
      ram_musician = Some 1, ram_start = Some 999, ram_end = Some 3000 \<rparr>"

definition small_integer :: "int option \<Rightarrow> bool" where
  "small_integer x = (case x of None \<Rightarrow> True | Some v \<Rightarrow> - 32768 \<le> v \<and> v \<le> 32767)"

definition membership_saved :: RelationshipAuthorMusician where
  "membership_saved = membership_early \<lparr> ram_id := Some 1, ram_adding := False \<rparr>"

text \<open>
  An album of 1975 that was never saved, and a studio: two authors, one song, and one row
  of the \<^verbatim>\<open>through\<close> model \<^verbatim>\<open>RelationshipAuthorSong\<close> relating the song to the first author.
\<close>

definition album_opera :: Album where
  "album_opera = \<lparr> album_id = None, album_adding = True,
      album_title = Some ''A Night at the Opera'', album_year_of_release = Some 1975,
      album_produced_by = None \<rparr>"

definition author_numbered :: "nat \<Rightarrow> Author" where
  "author_numbered k = queen_row \<lparr> author_id := Some k \<rparr>"

definition song_numbered :: "nat \<Rightarrow> Song" where
  "song_numbered k = rhapsody_row \<lparr> song_id := Some k, song_author := None, song_album := None \<rparr>"

definition credit :: "nat \<Rightarrow> nat \<Rightarrow> nat \<Rightarrow> RelationshipAuthorSong" where
  "credit k a s = \<lparr> ras_id = Some k, ras_adding = False, ras_author = Some a, ras_song = Some s \<rparr>"

definition studio_db :: database where
  "studio_db = empty_db \<lparr> authors := [author_numbered 30, author_numbered 40],
      songs := [song_numbered 15], relationship_author_song := [credit 1 30 15] \<rparr>"

section \<open>Properties\<close>

subsection \<open>Evaluation and auxiliary facts\<close>

lemma year_2026 [simp]: "Rep_year (Abs_year 2026) = 2026"
  by (simp add: Abs_year_inverse)

lemma current_year_range: "1 \<le> get_current_year e \<and> get_current_year e \<le> 9999"
  using Rep_year [of "year (today e)"] by (simp add: get_current_year_def)

lemmas field_defs = Field_def CharField_def URLField_def IntegerField_of_def
  integer_field_range_def SmallIntegerField_def PositiveIntegerField_def DecimalField_def
  ForeignKey_def OneToOneField_def field.defs

lemmas clean_defs = clean_field_def clean_foreign_key_def validate_def run_validators_def
  in_empty_values_def empty_str_def never_empty_def invalid_choice_def messages_def entry_def
  MinValueValidator_def MaxValueValidator_def MaxLengthValidator_def URLValidator_def
  get_current_year_def full_clean_def failed_fields_def unique_pk_def pks_def
  NON_FIELD_ERRORS_def Model_clean_def

lemmas example_defs = example_env_def example_today_def empty_db_def

lemma full_clean_ok_iff:
  "full_clean F C U V = Inr () \<longleftrightarrow> F = [] \<and> messages C = [] \<and> U [] = [] \<and> V [] = []"
  by (auto simp: full_clean_def Let_def entry_def failed_fields_def)

lemma full_clean_cases:
  "full_clean F C U V = Inr ()
   \<or> (\<exists>errors. errors \<noteq> [] \<and> full_clean F C U V = Inl (ValidationErrorDict errors)
                 \<and> set F \<subseteq> set errors)"
  by (auto simp: full_clean_def Let_def)

lemma entity_full_clean_cases:
  "entity_full_clean e db x = Inr ()
   \<or> (\<exists>errors. errors \<noteq> [] \<and> entity_full_clean e db x = Inl (ValidationErrorDict errors))"
  using full_clean_cases
  by (cases x)
     (simp_all add: Author_full_clean_def Musician_full_clean_def Album_full_clean_def
        Song_full_clean_def Profile_full_clean_def RelationshipAuthorMusician_full_clean_def
        RelationshipAuthorSong_full_clean_def, blast+)

lemma save_after_failed_clean:
  "entity_full_clean e db x = Inl err \<Longrightarrow> save e db x = (Inl err, db)"
  by (cases x)
     (simp_all add: wrapped_def ValidatedModel_save_def Author_save_def Musician_save_def
        Album_save_def Song_save_def Profile_save_def RelationshipAuthorMusician_save_def
        RelationshipAuthorSong_save_def)

lemma author_queen_clean:
  "Author_full_clean example_env empty_db author_queen = Inr ()"
  by (simp add: Author_full_clean_def Author_clean_fields_def Author_clean_def
      Author_name_def Author_website_def Author_first_appearance_def
      Author_last_appearance_def field_defs clean_defs author_queen_def example_defs)

lemma author_backwards_clean:
  "Author_full_clean example_env empty_db author_backwards =
     Inl (ValidationErrorDict
       [(''__all__'',
         [''The year of first appearance must be equal or lower to the year of last appearance.''])])"
  by (simp add: Author_full_clean_def Author_clean_fields_def Author_clean_def
      Author_name_def Author_website_def Author_first_appearance_def
      Author_last_appearance_def field_defs clean_defs author_queen_def author_backwards_def
      example_defs)

lemma author_queen_save:
  "Author_save example_env empty_db author_queen =
     (Inr (author_queen \<lparr> author_id := Some 1, author_adding := False \<rparr>),
      empty_db \<lparr> authors := [author_queen \<lparr> author_id := Some 1, author_adding := False \<rparr>] \<rparr>)"
  by (simp add: Author_save_def ValidatedModel_save_def author_queen_clean
        Author_Model_save_def Model_save_def next_pk_def pks_def,
      simp add: empty_db_def author_queen_def Let_def next_pk_def pks_def)

lemma messages_MinValueValidator [simp]:
  "(messages (MinValueValidator b e v) = []) = (limit_value e b \<le> v)"
  by (simp add: messages_def MinValueValidator_def)

lemma messages_MaxValueValidator [simp]:
  "(messages (MaxValueValidator b e v) = []) = (v \<le> limit_value e b)"
  by (simp add: messages_def MaxValueValidator_def)

lemma clean_int_field:
  "editable f \<Longrightarrow> choices f = None \<Longrightarrow>
   clean_field never_empty e f (Some v) =
     concat (map (\<lambda>check. messages (check e v)) (validators f @ class_validators f))"
  by (simp add: clean_field_def validate_def run_validators_def in_empty_values_def
      never_empty_def invalid_choice_def)

lemma year_field_ok:
  "f = Author_first_appearance \<or> f = Author_last_appearance \<or> f = Album_year_of_release \<Longrightarrow>
   (clean_field never_empty e f (Some v) = []) = (1000 \<le> v \<and> v \<le> get_current_year e)"
  using current_year_range [of e]
  by (auto simp: Author_first_appearance_def Author_last_appearance_def Album_year_of_release_def
      field_defs clean_int_field)

lemma entry_nonempty: "msgs \<noteq> [] \<Longrightarrow> entry name msgs \<noteq> []"
  by (simp add: entry_def)

lemma full_clean_fails:
  "F \<noteq> [] \<or> messages C \<noteq> [] \<or> U [] \<noteq> [] \<or> V [] \<noteq> [] \<Longrightarrow>
   \<exists>errors. errors \<noteq> [] \<and> full_clean F C U V = Inl (ValidationErrorDict errors) \<and> set F \<subseteq> set errors"
  using full_clean_cases [of F C U V] full_clean_ok_iff [of F C U V] by auto

lemma Author_save_fails:
  "Author_clean_fields e a \<noteq> [] \<or> messages (Author_clean a) \<noteq> [] \<Longrightarrow>
   \<exists>errors. errors \<noteq> [] \<and> Author_save e db a = (Inl (ValidationErrorDict errors), db)
       \<and> set (Author_clean_fields e a) \<subseteq> set errors"
proof -
  assume "Author_clean_fields e a \<noteq> [] \<or> messages (Author_clean a) \<noteq> []"
  then obtain errors where "errors \<noteq> []" 
    "Author_full_clean e db a = Inl (ValidationErrorDict errors)" "set (Author_clean_fields e a) \<subseteq> set errors"
    unfolding Author_full_clean_def using full_clean_fails by blast
  then show ?thesis by (auto simp: Author_save_def ValidatedModel_save_def)
qed

lemma Album_save_fails:
  "Album_clean_fields e a \<noteq> [] \<Longrightarrow>
   \<exists>errors. errors \<noteq> [] \<and> Album_save e db a = (Inl (ValidationErrorDict errors), db)
       \<and> set (Album_clean_fields e a) \<subseteq> set errors"
proof -
  assume "Album_clean_fields e a \<noteq> []"
  then obtain errors where "errors \<noteq> []" 
    "Album_full_clean e db a = Inl (ValidationErrorDict errors)" "set (Album_clean_fields e a) \<subseteq> set errors"
    unfolding Album_full_clean_def using full_clean_fails by blast
  then show ?thesis by (auto simp: Album_save_def ValidatedModel_save_def)
qed

lemma year_2027 [simp]: "Rep_year (Abs_year 2027) = 2027"
  by (simp add: Abs_year_inverse)

lemma cy [simp]: "get_current_year example_env = 2026" "get_current_year next_year_env = 2027"
  by (simp_all add: get_current_year_def example_env_def example_today_def next_year_env_def)

lemma dec_examples [simp]: "dec_value (decimal_of 500 (- 2)) = 5" "dec_value (decimal_of 499 (- 2)) = 499 / 100"
  by (simp_all add: dec_value_def decimal_of_def)

lemma Song_save_fails:
  "Song_clean_fields e db s \<noteq> [] \<Longrightarrow>
   \<exists>errors. errors \<noteq> [] \<and> Song_save e db s = (Inl (ValidationErrorDict errors), db)
       \<and> set (Song_clean_fields e db s) \<subseteq> set errors"
proof -
  assume "Song_clean_fields e db s \<noteq> []"
  then obtain errors where "errors \<noteq> []" 
    "Song_full_clean e db s = Inl (ValidationErrorDict errors)" "set (Song_clean_fields e db s) \<subseteq> set errors"
    unfolding Song_full_clean_def using full_clean_fails by blast
  then show ?thesis by (auto simp: Song_save_def ValidatedModel_save_def)
qed

lemma price_field:
  "clean_field never_empty e Song_price (Some p) =
     messages (less_than_five p) @ messages (DecimalValidator 4 2 e p)"
  by (simp add: clean_field_def validate_def run_validators_def in_empty_values_def
      never_empty_def invalid_choice_def Song_price_def field_defs)

lemma pks_simps [simp]:
  "pks pk [] = []"
  "pks pk (r # rows) = (case pk r of None \<Rightarrow> [] | Some k \<Rightarrow> [k]) @ pks pk rows"
  by (simp_all add: pks_def)

lemma catalogue_pks [simp]:
  "pks author_id (authors catalogue_db) = [1]"
  "pks musician_id (musicians catalogue_db) = [1]"
  "relationship_author_musician catalogue_db = []"
  by (simp_all add: catalogue_db_def pks_def queen_row_def may_row_def empty_db_def)

lemmas song_field_defs = Song_audio_def Song_title_def Song_author_def Song_album_def
  Song_duration_def Song_style_def Song_playbacks_def Song_price_def Song_deal_of_the_day_def
  Song_created_def Song_created_by_def Song_last_modified_def Song_last_modified_by_def
  STYLES_def unique_song_def

lemma ndigits_small [simp]: "n < 10 \<Longrightarrow> ndigits n = 1"
  by (simp add: ndigits.simps)

lemma ndigits_99 [simp]: "ndigits 99 = 2"
  by (simp add: ndigits.simps [of 99])

lemma less_than_five_99 [simp]: "less_than_five (decimal_of 99 (- 2)) = Inr ()"
  by (simp add: less_than_five_def dec_value_def decimal_of_def)

lemma DecimalValidator_99 [simp]: "DecimalValidator 4 2 e (decimal_of 99 (- 2)) = Inr ()"
  by (simp add: DecimalValidator_def decimal_of_def Let_def)

lemma intro_clean_fields: "Song_clean_fields example_env db song_intro = []"
  by (simp add: Song_clean_fields_def song_intro_def song_field_defs field_defs
      clean_field_def clean_foreign_key_def validate_def run_validators_def
      in_empty_values_def empty_str_def never_empty_def invalid_choice_def messages_def entry_def
      MaxLengthValidator_def)

lemma intro_full_clean: "Song_full_clean example_env db song_intro = Inr ()"
  by (simp add: Song_full_clean_def full_clean_ok_iff intro_clean_fields Model_clean_def
        messages_def,
      simp add: unique_pk_def Song_validate_constraints_def has_null_unique_song_def
        song_intro_def unique_song_def)

lemma intro_first_save:
  "Song_save example_env empty_db song_intro =
     (Inr (song_intro_saved 1), empty_db \<lparr> songs := [song_intro_saved 1] \<rparr>)"
  by (simp add: Song_save_def ValidatedModel_save_def intro_full_clean Song_Model_save_def
        Model_save_def,
      simp add: Let_def Song_pre_save_def Song_integrity_def fk_ok_def integrity_def
        has_null_unique_song_def song_intro_def song_intro_saved_def next_pk_def pks_def
        example_defs)

lemma messages_MaxLengthValidator [simp]:
  "(messages (MaxLengthValidator n e v) = []) = (length v \<le> n)"
  by (auto simp: messages_def MaxLengthValidator_def)

lemma nationality_field:
  "(clean_field empty_str e Musician_nationality (Some n) = []) = (1 \<le> length n \<and> length n \<le> 2)"
  by (cases n)
     (simp_all add: Musician_nationality_def field_defs clean_field_def validate_def
        run_validators_def in_empty_values_def empty_str_def invalid_choice_def messages_def
        MaxLengthValidator_def)

lemma nationality_null:
  "clean_field empty_str e Musician_nationality None \<noteq> []"
  by (simp add: Musician_nationality_def field_defs clean_field_def validate_def
        in_empty_values_def invalid_choice_def messages_def)

lemma Musician_save_fails:
  "Musician_clean_fields e db m \<noteq> [] \<Longrightarrow>
   \<exists>errors. errors \<noteq> [] \<and> Musician_save e db m = (Inl (ValidationErrorDict errors), db)"
proof -
  assume "Musician_clean_fields e db m \<noteq> []"
  then obtain errors where "errors \<noteq> []" 
    "Musician_full_clean e db m = Inl (ValidationErrorDict errors)"
    unfolding Musician_full_clean_def using full_clean_fails by blast
  then show ?thesis by (auto simp: Musician_save_def ValidatedModel_save_def)
qed

lemma short_full_clean:
  "Musician_full_clean example_env (empty_db \<lparr> authors := [queen_row] \<rparr>) musician_short = Inr ()"
  by (simp add: Musician_full_clean_def full_clean_ok_iff Model_clean_def messages_def,
      simp add: Musician_clean_fields_def musician_short_def musician_may_def queen_row_def
        Musician_name_def Musician_nationality_def Musician_instrument_def Musician_author_def
        INSTRUMENTS_def field_defs clean_field_def clean_foreign_key_def validate_def
        run_validators_def in_empty_values_def empty_str_def never_empty_def invalid_choice_def
        messages_def entry_def unique_pk_def pks_def example_defs MaxLengthValidator_def)

lemma small_integer_field:
  "f = RelationshipAuthorMusician_start \<or> f = RelationshipAuthorMusician_end \<Longrightarrow>
   small_integer x \<Longrightarrow> clean_field never_empty e f x = []"
proof (cases x)
  case None
  assume "f = RelationshipAuthorMusician_start \<or> f = RelationshipAuthorMusician_end"
  with None show ?thesis
    by (auto simp: RelationshipAuthorMusician_start_def RelationshipAuthorMusician_end_def
        field_defs clean_field_def in_empty_values_def)
next
  case (Some v)
  assume "f = RelationshipAuthorMusician_start \<or> f = RelationshipAuthorMusician_end"
    and "small_integer x"
  with Some show ?thesis
    by (auto simp: RelationshipAuthorMusician_start_def RelationshipAuthorMusician_end_def
        field_defs clean_int_field small_integer_def)
qed

lemma fk_required:
  "k \<in> set target \<Longrightarrow> clean_foreign_key (ForeignKey model policy) target (Some k) = []"
  by (simp add: clean_foreign_key_def validate_def field_defs invalid_choice_def never_empty_def
      in_empty_values_def)

lemma early_full_clean:
  "RelationshipAuthorMusician_full_clean example_env catalogue_db membership_early = Inr ()"
  by (simp add: RelationshipAuthorMusician_full_clean_def full_clean_ok_iff Model_clean_def
        messages_def,
      simp add: RelationshipAuthorMusician_clean_fields_def membership_early_def
        small_integer_field small_integer_def fk_required
        RelationshipAuthorMusician_author_def RelationshipAuthorMusician_musician_def
        entry_def unique_pk_def)

lemma set_pks: "set (pks pk rows) = {k. \<exists>r \<in> set rows. pk r = Some k}"
  by (induction rows) (auto split: option.splits)

lemma referencing_single [simp]: "referencing fk [k] = (\<lambda>r. fk r = Some k)"
  by (auto simp: referencing_def fun_eq_iff split: option.splits)

lemma remove_selected:
  assumes "primary_keys pk rows"
  shows "remove pk (pks pk (filter P rows)) rows = filter (\<lambda>r. \<not> P r) rows"
proof -
  from assms have inj: "inj_on pk (set rows)"
    by (simp add: primary_keys_def distinct_map)
  from assms have some: "\<forall>r \<in> set rows. pk r \<noteq> None"
    by (force simp: primary_keys_def)
  have "\<And>r. r \<in> set rows \<Longrightarrow> referencing pk (pks pk (filter P rows)) r = P r"
  proof -
    fix r assume r: "r \<in> set rows"
    with some obtain k where k: "pk r = Some k" by auto
    show "referencing pk (pks pk (filter P rows)) r = P r"
    proof
      assume "referencing pk (pks pk (filter P rows)) r"
      with k obtain r' where "r' \<in> set rows" "P r'" "pk r' = Some k"
        by (auto simp: referencing_def set_pks)
      with inj r k have "r' = r" by (simp add: inj_on_def)
      with \<open>P r'\<close> show "P r" by simp
    next
      assume "P r"
      with r k show "referencing pk (pks pk (filter P rows)) r"
        by (auto simp: referencing_def set_pks)
    qed
  qed
  then show ?thesis
    unfolding remove_def by (auto intro: filter_cong)
qed

lemmas key_defs = Musician_author_def Song_author_def Song_album_def Profile_preferred_song_def
  RelationshipAuthorMusician_author_def RelationshipAuthorMusician_musician_def
  RelationshipAuthorSong_author_def RelationshipAuthorSong_song_def ForeignKey_def field.defs
  Field_def

lemmas delete_defs = delete_authors_def delete_albums_def delete_songs_def delete_musicians_def
  delete_profiles_def delete_relationship_author_musician_def
  delete_relationship_author_song_def propagate_def

lemma songs_delete_authors:
  "songs (delete_authors [k] db) =
     map (\<lambda>s. if song_author s = Some k then s \<lparr> song_author := None \<rparr> else s) (songs db)"
  by (simp add: delete_defs key_defs)

lemma songs_delete_albums:
  "songs (delete_albums [k] db) =
     remove song_id (pks song_id (filter (\<lambda>s. song_album s = Some k) (songs db))) (songs db)"
  by (simp add: delete_defs key_defs)

lemma musicians_delete_authors:
  "musicians (delete_authors [k] db) =
     remove musician_id (pks musician_id (filter (\<lambda>m. musician_author m = Some k) (musicians db)))
       (musicians db)"
  by (simp add: delete_defs key_defs)

lemma next_pk_fresh: "next_pk ks \<notin> set ks"
proof -
  have "j \<le> fold max ks acc" if "j \<in> set ks \<or> j \<le> acc" for j :: nat and acc
    using that by (induction ks arbitrary: acc) (auto simp: max_def)
  then have "\<forall>j \<in> set ks. j \<le> fold max ks 0"
    by blast
  then show ?thesis
    unfolding next_pk_def by fastforce
qed

lemma Model_save_new:
  "pk self = None \<Longrightarrow> constraints (pre_save (next_pk (pks pk rows)) True self) = None \<Longrightarrow>
   Model_save pk pre_save constraints rows self =
     (Inr (pre_save (next_pk (pks pk rows)) True self),
      rows @ [pre_save (next_pk (pks pk rows)) True self])"
  by (simp add: Model_save_def Let_def next_pk_fresh)

lemma full_clean_errors:
  "full_clean F C U V = Inl (ValidationErrorDict errors) \<Longrightarrow>
   errors = F @ entry NON_FIELD_ERRORS (messages C)
              @ U (failed_fields (F @ entry NON_FIELD_ERRORS (messages C)))
              @ V (failed_fields (F @ entry NON_FIELD_ERRORS (messages C)
                     @ U (failed_fields (F @ entry NON_FIELD_ERRORS (messages C)))))"
  by (auto simp: full_clean_def Let_def split: if_splits)

lemma unique_pk_keys: "fst ` set (unique_pk adding pk table exclude) \<subseteq> {''id''}"
  by (auto simp: unique_pk_def split: option.splits if_splits)

lemma entry_keys: "fst ` set (entry name msgs) = (if msgs = [] then {} else {name})"
  by (simp add: entry_def)

lemma Author_save_errors:
  assumes "Author_save e db a = (Inl (ValidationErrorDict errors), db')"
  shows "(''first_appearance'' \<in> fst ` set errors)
           = (clean_field never_empty e Author_first_appearance (author_first_appearance a) \<noteq> [])"
    and "(''last_appearance'' \<in> fst ` set errors)
           = (clean_field never_empty e Author_last_appearance (author_last_appearance a) \<noteq> [])"
proof -
  have "Author_full_clean e db a = Inl (ValidationErrorDict errors)"
  proof (cases "Author_full_clean e db a")
    case (Inl err)
    with assms show ?thesis by (simp add: Author_save_def ValidatedModel_save_def)
  next
    case (Inr u)
    with assms show ?thesis
      by (simp add: Author_save_def ValidatedModel_save_def Author_Model_save_def Model_save_def
          Let_def split: prod.splits)
  qed
  from full_clean_errors [OF this [unfolded Author_full_clean_def]]
  have keys: "fst ` set errors \<subseteq> fst ` set (Author_clean_fields e a) \<union> {NON_FIELD_ERRORS, ''id''}"
    and sub: "fst ` set (Author_clean_fields e a) \<subseteq> fst ` set errors"
    using unique_pk_keys [of "author_adding a" "author_id a" "pks author_id (authors db)"]
    by (auto simp: entry_def split: if_splits)
  have f: "(''first_appearance'' \<in> fst ` set (Author_clean_fields e a))
      = (clean_field never_empty e Author_first_appearance (author_first_appearance a) \<noteq> [])"
    by (auto simp: Author_clean_fields_def entry_def split: if_splits)
  have l: "(''last_appearance'' \<in> fst ` set (Author_clean_fields e a))
      = (clean_field never_empty e Author_last_appearance (author_last_appearance a) \<noteq> [])"
    by (auto simp: Author_clean_fields_def entry_def split: if_splits)
  from keys sub f show "(''first_appearance'' \<in> fst ` set errors)
           = (clean_field never_empty e Author_first_appearance (author_first_appearance a) \<noteq> [])"
    by (auto simp: NON_FIELD_ERRORS_def)
  from keys sub l show "(''last_appearance'' \<in> fst ` set errors)
           = (clean_field never_empty e Author_last_appearance (author_last_appearance a) \<noteq> [])"
    by (auto simp: NON_FIELD_ERRORS_def)
qed

lemma Album_save_errors:
  assumes "Album_save e db al = (Inl (ValidationErrorDict errors), db')"
  shows "(''year_of_release'' \<in> fst ` set errors)
           = (clean_field never_empty e Album_year_of_release (album_year_of_release al) \<noteq> [])"
proof -
  have "Album_full_clean e db al = Inl (ValidationErrorDict errors)"
  proof (cases "Album_full_clean e db al")
    case (Inl err)
    with assms show ?thesis by (simp add: Album_save_def ValidatedModel_save_def)
  next
    case (Inr u)
    with assms show ?thesis
      by (simp add: Album_save_def ValidatedModel_save_def Album_Model_save_def Model_save_def
          Let_def split: prod.splits)
  qed
  from full_clean_errors [OF this [unfolded Album_full_clean_def]]
  have keys: "fst ` set errors \<subseteq> fst ` set (Album_clean_fields e al) \<union> {NON_FIELD_ERRORS, ''id''}"
    and sub: "fst ` set (Album_clean_fields e al) \<subseteq> fst ` set errors"
    using unique_pk_keys [of "album_adding al" "album_id al" "pks album_id (albums db)"]
    by (auto simp: entry_def Model_clean_def messages_def split: if_splits)
  have f: "(''year_of_release'' \<in> fst ` set (Album_clean_fields e al))
      = (clean_field never_empty e Album_year_of_release (album_year_of_release al) \<noteq> [])"
    by (auto simp: Album_clean_fields_def entry_def split: if_splits)
  from keys sub f show ?thesis
    by (auto simp: NON_FIELD_ERRORS_def)
qed

lemma year_unset:
  "f = Author_first_appearance \<or> f = Author_last_appearance \<Longrightarrow>
   clean_field never_empty e f None = []"
  by (auto simp: Author_first_appearance_def Author_last_appearance_def field_defs
      clean_field_def in_empty_values_def)

lemma Author_saved:
  assumes "author_id a = None"
    and "clean_field empty_str e Author_name (author_name a) = []"
    and "clean_field empty_str e Author_website (author_website a) = []"
    and "clean_field never_empty e Author_first_appearance (author_first_appearance a) = []"
    and "clean_field never_empty e Author_last_appearance (author_last_appearance a) = []"
    and "Author_clean a = Inr ()"
  shows "Author_save e db a =
     (Inr (a \<lparr> author_id := Some (next_pk (pks author_id (authors db))), author_adding := False \<rparr>),
      db \<lparr> authors := authors db
             @ [a \<lparr> author_id := Some (next_pk (pks author_id (authors db))),
                    author_adding := False \<rparr>] \<rparr>)"
proof -
  from assms have "Author_full_clean e db a = Inr ()"
    by (simp add: Author_full_clean_def full_clean_ok_iff Author_clean_fields_def entry_def
        messages_def unique_pk_def)
  with assms(1) show ?thesis
    by (simp add: Author_save_def ValidatedModel_save_def Author_Model_save_def Model_save_new)
qed

lemma Album_saved:
  assumes "album_id al = None"
    and "clean_field empty_str e Album_title (album_title al) = []"
    and "clean_field empty_str e Album_produced_by (album_produced_by al) = []"
    and "clean_field never_empty e Album_year_of_release (album_year_of_release al) = []"
  shows "Album_save e db al =
     (Inr (al \<lparr> album_id := Some (next_pk (pks album_id (albums db))), album_adding := False \<rparr>),
      db \<lparr> albums := albums db
             @ [al \<lparr> album_id := Some (next_pk (pks album_id (albums db))),
                     album_adding := False \<rparr>] \<rparr>)"
proof -
  from assms have "Album_full_clean e db al = Inr ()"
    by (simp add: Album_full_clean_def full_clean_ok_iff Album_clean_fields_def entry_def
        messages_def unique_pk_def Model_clean_def)
  with assms(1) show ?thesis
    by (simp add: Album_save_def ValidatedModel_save_def Album_Model_save_def Model_save_new)
qed

lemma Author_key_iff:
  assumes "field_name = ''first_appearance'' \<and> author_first_appearance a = Some v
           \<or> field_name = ''last_appearance'' \<and> author_last_appearance a = Some v"
  shows "(\<exists>errors. Author_save e db a = (Inl (ValidationErrorDict errors), db)
             \<and> field_name \<in> fst ` set errors)
         = (v < 1000 \<or> get_current_year e < v)"
proof
  assume "\<exists>errors. Author_save e db a = (Inl (ValidationErrorDict errors), db)
             \<and> field_name \<in> fst ` set errors"
  then obtain errors where s: "Author_save e db a = (Inl (ValidationErrorDict errors), db)"
    and k: "field_name \<in> fst ` set errors" by blast
  from assms k Author_save_errors [OF s]
  have "clean_field never_empty e Author_first_appearance (Some v) \<noteq> []
        \<or> clean_field never_empty e Author_last_appearance (Some v) \<noteq> []"
    by (elim disjE conjE; simp)
  then show "v < 1000 \<or> get_current_year e < v"
    using year_field_ok [of Author_first_appearance e v]
      year_field_ok [of Author_last_appearance e v] by auto
next
  assume out: "v < 1000 \<or> get_current_year e < v"
  then have bad: "clean_field never_empty e Author_first_appearance (Some v) \<noteq> []"
      "clean_field never_empty e Author_last_appearance (Some v) \<noteq> []"
    using year_field_ok [of Author_first_appearance e v]
      year_field_ok [of Author_last_appearance e v] by auto
  with assms have "Author_clean_fields e a \<noteq> []"
    by (auto simp: Author_clean_fields_def entry_def)
  from Author_save_fails [of e a db] this obtain errors where
    s: "Author_save e db a = (Inl (ValidationErrorDict errors), db)" by blast
  from assms bad Author_save_errors [OF s] have "field_name \<in> fst ` set errors"
    by (elim disjE conjE; simp)
  with s show "\<exists>errors. Author_save e db a = (Inl (ValidationErrorDict errors), db)
             \<and> field_name \<in> fst ` set errors" by blast
qed

lemma Album_key_iff:
  assumes "album_year_of_release al = Some v"
  shows "(\<exists>errors. Album_save e db al = (Inl (ValidationErrorDict errors), db)
             \<and> ''year_of_release'' \<in> fst ` set errors)
         = (v < 1000 \<or> get_current_year e < v)"
proof
  assume "\<exists>errors. Album_save e db al = (Inl (ValidationErrorDict errors), db)
             \<and> ''year_of_release'' \<in> fst ` set errors"
  then obtain errors where s: "Album_save e db al = (Inl (ValidationErrorDict errors), db)"
    and k: "''year_of_release'' \<in> fst ` set errors" by blast
  from assms k Album_save_errors [OF s]
  have "clean_field never_empty e Album_year_of_release (Some v) \<noteq> []"
    by simp
  then show "v < 1000 \<or> get_current_year e < v"
    using year_field_ok [of Album_year_of_release e v] by auto
next
  assume out: "v < 1000 \<or> get_current_year e < v"
  then have bad: "clean_field never_empty e Album_year_of_release (Some v) \<noteq> []"
    using year_field_ok [of Album_year_of_release e v] by auto
  with assms have "Album_clean_fields e al \<noteq> []"
    by (auto simp: Album_clean_fields_def entry_def)
  from Album_save_fails [of e al db] this obtain errors where
    s: "Album_save e db al = (Inl (ValidationErrorDict errors), db)" by blast
  from assms bad Album_save_errors [OF s] have "''year_of_release'' \<in> fst ` set errors"
    by simp
  with s show "\<exists>errors. Album_save e db al = (Inl (ValidationErrorDict errors), db)
             \<and> ''year_of_release'' \<in> fst ` set errors" by blast
qed

lemma in_range_clean:
  "f = Author_first_appearance \<or> f = Author_last_appearance \<Longrightarrow>
   x = None \<or> (\<exists>v. x = Some v \<and> 1000 \<le> v \<and> v \<le> get_current_year e) \<Longrightarrow>
   clean_field never_empty e f x = []"
  using year_unset [of f e] year_field_ok [of f e] by auto

lemma opera_fields:
  "clean_field empty_str example_env Album_title (album_title album_opera) = []"
  "clean_field empty_str example_env Album_produced_by (album_produced_by album_opera) = []"
  by (simp_all add: album_opera_def Album_title_def Album_produced_by_def field_defs
      clean_field_def validate_def run_validators_def in_empty_values_def empty_str_def
      invalid_choice_def messages_def MaxLengthValidator_def)

lemma queen_fields:
  "clean_field empty_str example_env Author_name (author_name author_queen) = []"
  "clean_field empty_str example_env Author_website (author_website author_queen) = []"
  "Author_clean author_queen = Inr ()"
  by (simp_all add: author_queen_def Author_name_def Author_website_def field_defs
      clean_field_def validate_def run_validators_def in_empty_values_def empty_str_def
      invalid_choice_def messages_def MaxLengthValidator_def Author_clean_def)


lemma related_append: "related db k (rows @ extra) = related db k rows @ related db k extra"
  by (simp add: related_def)




lemma studio_facts [simp]:
  "song_id (song_numbered k) = Some k"
  "pks song_id (songs studio_db) = [15]"
  "pks author_id (authors studio_db) = [30, 40]"
  "authors studio_db = [author_numbered 30, author_numbered 40]"
  "relationship_author_song studio_db = [credit 1 30 15]"
  "author_id (author_numbered k) = Some k"
  by (simp_all add: studio_db_def song_numbered_def author_numbered_def empty_db_def)

subsection \<open>Validation on save\<close>

text \<open>
  Claim C1. For an instance of any model, \<^verbatim>\<open>save\<close> runs \<^verbatim>\<open>full_clean\<close> (the field rules,
  the cross-field \<^verbatim>\<open>clean\<close>, the uniqueness checks and the constraints) before it writes:
  when \<^verbatim>\<open>full_clean\<close> raises, \<^verbatim>\<open>save\<close> raises the same error, which is a
  \<^verbatim>\<open>ValidationError\<close> holding at least one entry, and the database is the one before the
  call; and whenever \<^verbatim>\<open>save\<close> returns normally, \<^verbatim>\<open>full_clean\<close> has passed.
\<close>

theorem save_rejects_invalid:
  "(entity_full_clean e db x = Inl err \<longrightarrow>
      save e db x = (Inl err, db)
      \<and> (\<exists>errors. errors \<noteq> [] \<and> err = ValidationErrorDict errors))
   \<and> (save e db x = (Inr x', db') \<longrightarrow> entity_full_clean e db x = Inr ())"
proof (intro conjI impI)
  assume failed: "entity_full_clean e db x = Inl err"
  then show "save e db x = (Inl err, db)"
    by (rule save_after_failed_clean)
  from failed entity_full_clean_cases [of e db x]
  show "\<exists>errors. errors \<noteq> [] \<and> err = ValidationErrorDict errors"
    by auto
next
  assume saved: "save e db x = (Inr x', db')"
  show "entity_full_clean e db x = Inr ()"
  proof (cases "entity_full_clean e db x")
    case (Inl err)
    then have "save e db x = (Inl err, db)"
      by (rule save_after_failed_clean)
    with saved show ?thesis by simp
  next
    case (Inr u)
    then show ?thesis by simp
  qed
qed

theorem save_rejects_invalid_witness:
  "save example_env empty_db (AnAuthor author_backwards) =
     (Inl (ValidationErrorDict
        [(''__all__'',
          [''The year of first appearance must be equal or lower to the year of last appearance.''])]),
      empty_db)
   \<and> entity_full_clean example_env empty_db (AnAuthor author_queen) = Inr ()"
proof -
  have failed: "entity_full_clean example_env empty_db (AnAuthor author_backwards) =
      Inl (ValidationErrorDict
        [(''__all__'',
          [''The year of first appearance must be equal or lower to the year of last appearance.''])])"
    by (simp add: author_backwards_clean)
  have saved: "save example_env empty_db (AnAuthor author_queen) =
      (Inr (AnAuthor (author_queen \<lparr> author_id := Some 1, author_adding := False \<rparr>)),
       empty_db \<lparr> authors := [author_queen \<lparr> author_id := Some 1, author_adding := False \<rparr>] \<rparr>)"
    by (simp add: author_queen_save wrapped_def)
  from save_rejects_invalid [of example_env empty_db "AnAuthor author_backwards"] failed
  have first: "save example_env empty_db (AnAuthor author_backwards) =
     (Inl (ValidationErrorDict
        [(''__all__'',
          [''The year of first appearance must be equal or lower to the year of last appearance.''])]),
      empty_db)"
    by blast
  from save_rejects_invalid [of example_env empty_db "AnAuthor author_queen"] saved
  have "entity_full_clean example_env empty_db (AnAuthor author_queen) = Inr ()"
    by blast
  with first show ?thesis by simp
qed

subsection \<open>Field rules\<close>

text \<open>
  Claim C2. For each of the three year fields (Author.first_appearance,
  Author.last_appearance, Album.year_of_release) the field's validation of a value that is
  set raises no error exactly when the value lies in the inclusive range from 1000 to the
  year that \<^verbatim>\<open>get_current_year\<close> reads from the clock when the field is validated. At the
  level of \<^verbatim>\<open>save\<close>: an Author or Album holding a value below 1000 or above that year in
  one of these fields is not saved, \<^verbatim>\<open>save\<close> raises a \<^verbatim>\<open>ValidationError\<close> and leaves the
  database as it was; \<^verbatim>\<open>save\<close> raises an error that names the year field exactly when
  the field's value is out of that range, so that a value within the range never makes
  \<^verbatim>\<open>save\<close> fail on account of this rule; and a new Author or Album whose year fields are
  within the range (for an Author: or unset) and whose other fields and \<^verbatim>\<open>clean\<close> pass is
  saved: \<^verbatim>\<open>save\<close> returns the instance with a fresh primary key and appends it to its table.
\<close>

theorem year_fields_bounded:
  "(f = Author_first_appearance \<or> f = Author_last_appearance \<or> f = Album_year_of_release \<longrightarrow>
      (clean_field never_empty e f (Some v) = []) = (1000 \<le> v \<and> v \<le> get_current_year e))
   \<and> (v < 1000 \<or> get_current_year e < v \<longrightarrow>
      (author_first_appearance a = Some v \<or> author_last_appearance a = Some v \<longrightarrow>
         (\<exists>errors. errors \<noteq> [] \<and> Author_save e db a = (Inl (ValidationErrorDict errors), db)))
      \<and> (album_year_of_release al = Some v \<longrightarrow>
         (\<exists>errors. errors \<noteq> [] \<and> Album_save e db al = (Inl (ValidationErrorDict errors), db))))
   \<and> (author_first_appearance a = Some v \<longrightarrow>
        (\<exists>errors. Author_save e db a = (Inl (ValidationErrorDict errors), db)
             \<and> ''first_appearance'' \<in> fst ` set errors)
        = (v < 1000 \<or> get_current_year e < v))
   \<and> (author_last_appearance a = Some v \<longrightarrow>
        (\<exists>errors. Author_save e db a = (Inl (ValidationErrorDict errors), db)
             \<and> ''last_appearance'' \<in> fst ` set errors)
        = (v < 1000 \<or> get_current_year e < v))
   \<and> (album_year_of_release al = Some v \<longrightarrow>
        (\<exists>errors. Album_save e db al = (Inl (ValidationErrorDict errors), db)
             \<and> ''year_of_release'' \<in> fst ` set errors)
        = (v < 1000 \<or> get_current_year e < v))
   \<and> (author_id a = None
        \<and> (author_first_appearance a = None
             \<or> (\<exists>y. author_first_appearance a = Some y \<and> 1000 \<le> y \<and> y \<le> get_current_year e))
        \<and> (author_last_appearance a = None
             \<or> (\<exists>y. author_last_appearance a = Some y \<and> 1000 \<le> y \<and> y \<le> get_current_year e))
        \<and> clean_field empty_str e Author_name (author_name a) = []
        \<and> clean_field empty_str e Author_website (author_website a) = []
        \<and> Author_clean a = Inr () \<longrightarrow>
        (\<exists>k. Author_save e db a =
           (Inr (a \<lparr> author_id := Some k, author_adding := False \<rparr>),
            db \<lparr> authors := authors db @ [a \<lparr> author_id := Some k, author_adding := False \<rparr>] \<rparr>)))
   \<and> (album_id al = None
        \<and> (\<exists>y. album_year_of_release al = Some y \<and> 1000 \<le> y \<and> y \<le> get_current_year e)
        \<and> clean_field empty_str e Album_title (album_title al) = []
        \<and> clean_field empty_str e Album_produced_by (album_produced_by al) = [] \<longrightarrow>
        (\<exists>k. Album_save e db al =
           (Inr (al \<lparr> album_id := Some k, album_adding := False \<rparr>),
            db \<lparr> albums := albums db @ [al \<lparr> album_id := Some k, album_adding := False \<rparr>] \<rparr>)))"
proof (intro conjI impI)
  assume "f = Author_first_appearance \<or> f = Author_last_appearance \<or> f = Album_year_of_release"
  then show "(clean_field never_empty e f (Some v) = []) = (1000 \<le> v \<and> v \<le> get_current_year e)"
    by (rule year_field_ok)
next
  assume out: "v < 1000 \<or> get_current_year e < v"
    and set: "author_first_appearance a = Some v \<or> author_last_appearance a = Some v"
  from out have "clean_field never_empty e Author_first_appearance (Some v) \<noteq> []"
     "clean_field never_empty e Author_last_appearance (Some v) \<noteq> []"
    using year_field_ok [of Author_first_appearance e v] year_field_ok [of Author_last_appearance e v] by auto
  with set have "Author_clean_fields e a \<noteq> []"
    by (auto simp: Author_clean_fields_def entry_def)
  then show "\<exists>errors. errors \<noteq> [] \<and> Author_save e db a = (Inl (ValidationErrorDict errors), db)"
    using Author_save_fails [of e a db] by blast
next
  assume out: "v < 1000 \<or> get_current_year e < v"
    and set: "album_year_of_release al = Some v"
  from out have "clean_field never_empty e Album_year_of_release (Some v) \<noteq> []"
    using year_field_ok [of Album_year_of_release e v] by auto
  with set have "Album_clean_fields e al \<noteq> []"
    by (auto simp: Album_clean_fields_def entry_def)
  then show "\<exists>errors. errors \<noteq> [] \<and> Album_save e db al = (Inl (ValidationErrorDict errors), db)"
    using Album_save_fails [of e al db] by blast
next
  assume "author_first_appearance a = Some v"
  then show "(\<exists>errors. Author_save e db a = (Inl (ValidationErrorDict errors), db)
             \<and> ''first_appearance'' \<in> fst ` set errors)
        = (v < 1000 \<or> get_current_year e < v)"
    using Author_key_iff [of "''first_appearance''" a v e db] by simp
next
  assume "author_last_appearance a = Some v"
  then show "(\<exists>errors. Author_save e db a = (Inl (ValidationErrorDict errors), db)
             \<and> ''last_appearance'' \<in> fst ` set errors)
        = (v < 1000 \<or> get_current_year e < v)"
    using Author_key_iff [of "''last_appearance''" a v e db] by simp
next
  assume "album_year_of_release al = Some v"
  then show "(\<exists>errors. Album_save e db al = (Inl (ValidationErrorDict errors), db)
             \<and> ''year_of_release'' \<in> fst ` set errors)
        = (v < 1000 \<or> get_current_year e < v)"
    by (rule Album_key_iff)
next
  assume h: "author_id a = None
        \<and> (author_first_appearance a = None
             \<or> (\<exists>y. author_first_appearance a = Some y \<and> 1000 \<le> y \<and> y \<le> get_current_year e))
        \<and> (author_last_appearance a = None
             \<or> (\<exists>y. author_last_appearance a = Some y \<and> 1000 \<le> y \<and> y \<le> get_current_year e))
        \<and> clean_field empty_str e Author_name (author_name a) = []
        \<and> clean_field empty_str e Author_website (author_website a) = []
        \<and> Author_clean a = Inr ()"
  then have "clean_field never_empty e Author_first_appearance (author_first_appearance a) = []"
    "clean_field never_empty e Author_last_appearance (author_last_appearance a) = []"
    using in_range_clean [of Author_first_appearance "author_first_appearance a" e]
      in_range_clean [of Author_last_appearance "author_last_appearance a" e] by auto
  with h show "\<exists>k. Author_save e db a =
           (Inr (a \<lparr> author_id := Some k, author_adding := False \<rparr>),
            db \<lparr> authors := authors db @ [a \<lparr> author_id := Some k, author_adding := False \<rparr>] \<rparr>)"
    using Author_saved [of a e db] by blast
next
  assume h: "album_id al = None
        \<and> (\<exists>y. album_year_of_release al = Some y \<and> 1000 \<le> y \<and> y \<le> get_current_year e)
        \<and> clean_field empty_str e Album_title (album_title al) = []
        \<and> clean_field empty_str e Album_produced_by (album_produced_by al) = []"
  then have "clean_field never_empty e Album_year_of_release (album_year_of_release al) = []"
    using year_field_ok [of Album_year_of_release e] by auto
  with h show "\<exists>k. Album_save e db al =
           (Inr (al \<lparr> album_id := Some k, album_adding := False \<rparr>),
            db \<lparr> albums := albums db @ [al \<lparr> album_id := Some k, album_adding := False \<rparr>] \<rparr>)"
    using Album_saved [of al e db] by blast
qed

theorem year_fields_bounded_witness:
  "clean_field never_empty example_env Album_year_of_release (Some 2026) = []
   \<and> clean_field never_empty example_env Album_year_of_release (Some 1000) = []
   \<and> clean_field never_empty example_env Author_last_appearance (Some 2027) \<noteq> []
   \<and> clean_field never_empty next_year_env Author_last_appearance (Some 2027) = []
   \<and> (\<exists>errors. errors \<noteq> [] \<and> Author_save example_env empty_db author_future =
         (Inl (ValidationErrorDict errors), empty_db))
   \<and> (\<exists>errors. errors \<noteq> [] \<and> Album_save example_env empty_db album_ancient =
         (Inl (ValidationErrorDict errors), empty_db))
   \<and> (\<exists>errors. Author_save example_env empty_db author_future =
         (Inl (ValidationErrorDict errors), empty_db) \<and> ''last_appearance'' \<in> fst ` set errors)
   \<and> \<not> (\<exists>errors. Album_save example_env empty_db album_opera =
         (Inl (ValidationErrorDict errors), empty_db) \<and> ''year_of_release'' \<in> fst ` set errors)
   \<and> (\<exists>k. Author_save example_env empty_db author_queen =
         (Inr (author_queen \<lparr> author_id := Some k, author_adding := False \<rparr>),
          empty_db \<lparr> authors := authors empty_db
             @ [author_queen \<lparr> author_id := Some k, author_adding := False \<rparr>] \<rparr>))
   \<and> (\<exists>k. Album_save example_env empty_db album_opera =
         (Inr (album_opera \<lparr> album_id := Some k, album_adding := False \<rparr>),
          empty_db \<lparr> albums := albums empty_db
             @ [album_opera \<lparr> album_id := Some k, album_adding := False \<rparr>] \<rparr>))"
proof -
  have q: "author_id author_queen = None" "author_first_appearance author_queen = Some 1970"
    "author_last_appearance author_queen = Some 1991"
    by (simp_all add: author_queen_def)
  have o: "album_id album_opera = None" "album_year_of_release album_opera = Some 1975"
    by (simp_all add: album_opera_def)
  have f: "author_last_appearance author_future = Some 2027"
    by (simp add: author_future_def)
  have n: "album_year_of_release album_ancient = Some 999"
    by (simp add: album_ancient_def)
  show ?thesis
    using year_fields_bounded [of Album_year_of_release example_env 2026]
      year_fields_bounded [of Album_year_of_release example_env 1000]
      year_fields_bounded [where f = Author_last_appearance and e = example_env and v = 2027
          and a = author_future and db = empty_db]
      year_fields_bounded [of Author_last_appearance next_year_env 2027]
      year_fields_bounded [where e = example_env and v = 999 and al = album_ancient and db = empty_db]
      year_fields_bounded [where e = example_env and v = 1975 and al = album_opera and a = author_queen
          and db = empty_db]
      q o f n opera_fields queen_fields
    by simp
qed

text \<open>
  Claim C3. An Author whose two appearance years are both set and whose first appearance
  exceeds the last is not saved (\<^verbatim>\<open>save\<close> raises a \<^verbatim>\<open>ValidationError\<close> and leaves the
  database as it was), and \<^verbatim>\<open>Author.clean\<close>, the ordering rule, raises nothing when one of
  the two years is not set.
\<close>

theorem author_appearance_order:
  "(author_first_appearance a = Some first_year \<and> author_last_appearance a = Some last_year
      \<and> first_year > last_year \<longrightarrow>
      (\<exists>errors. errors \<noteq> [] \<and> Author_save e db a = (Inl (ValidationErrorDict errors), db)))
   \<and> (author_first_appearance a = None \<or> author_last_appearance a = None \<longrightarrow>
        Author_clean a = Inr ())"
proof (intro conjI impI)
  assume h: "author_first_appearance a = Some first_year \<and> author_last_appearance a = Some last_year
      \<and> first_year > last_year"
  show "\<exists>errors. errors \<noteq> [] \<and> Author_save e db a = (Inl (ValidationErrorDict errors), db)"
  proof (cases "first_year \<noteq> 0 \<and> last_year \<noteq> 0")
    case True
    with h have "messages (Author_clean a) \<noteq> []"
      by (simp add: Author_clean_def messages_def)
    then show ?thesis using Author_save_fails [of e a db] by blast
  next
    case False
    with h have "first_year < 1000 \<or> last_year < 1000" by auto
    then have "clean_field never_empty e Author_first_appearance (Some first_year) \<noteq> []
        \<or> clean_field never_empty e Author_last_appearance (Some last_year) \<noteq> []"
      using year_field_ok [of Author_first_appearance e first_year]
        year_field_ok [of Author_last_appearance e last_year] by auto
    with h have "Author_clean_fields e a \<noteq> []"
      by (auto simp: Author_clean_fields_def entry_def)
    then show ?thesis using Author_save_fails [of e a db] by blast
  qed
next
  assume "author_first_appearance a = None \<or> author_last_appearance a = None"
  then show "Author_clean a = Inr ()"
    by (auto simp: Author_clean_def split: option.splits)
qed

theorem author_appearance_order_witness:
  "(\<exists>errors. errors \<noteq> [] \<and> Author_save example_env empty_db author_backwards =
         (Inl (ValidationErrorDict errors), empty_db))
   \<and> Author_clean (author_queen \<lparr> author_last_appearance := None \<rparr>) = Inr ()"
  using author_appearance_order [where a = author_backwards and first_year = 1991 and last_year = 1970 and e = example_env and db = empty_db]
    author_appearance_order [where a = "author_queen \<lparr> author_last_appearance := None \<rparr>"]
  by (simp add: author_backwards_def)

text \<open>
  Claim C4. A Song whose price is 5.00 or more is not saved: \<^verbatim>\<open>save\<close> raises a
  \<^verbatim>\<open>ValidationError\<close> whose entry for the field \<^verbatim>\<open>price\<close> holds the message of
  \<^verbatim>\<open>less_than_five\<close>, and leaves the database as it was; and \<^verbatim>\<open>less_than_five\<close> accepts
  every price from 0.00 to 4.99.
\<close>

theorem song_price_below_five:
  "(song_price s = Some p \<and> dec_value p \<ge> 5 \<longrightarrow>
      (\<exists>errors msgs. Song_save e db s = (Inl (ValidationErrorDict errors), db)
          \<and> (''price'', msgs) \<in> set errors
          \<and> ''The price must be lower than 5 euros.'' \<in> set msgs))
   \<and> (0 \<le> dec_value p \<and> dec_value p \<le> 499 / 100 \<longrightarrow> less_than_five p = Inr ())"
proof (intro conjI impI)
  assume h: "song_price s = Some p \<and> dec_value p \<ge> 5"
  define msgs where "msgs = clean_field never_empty e Song_price (Some p)"
  from h have m: "''The price must be lower than 5 euros.'' \<in> set msgs"
    by (simp add: msgs_def price_field less_than_five_def messages_def)
  then have "msgs \<noteq> []" by auto
  with h have mem: "(''price'', msgs) \<in> set (Song_clean_fields e db s)"
    by (simp add: Song_clean_fields_def msgs_def entry_def)
  then have "Song_clean_fields e db s \<noteq> []" by auto
  from Song_save_fails [OF this] mem m
  show "\<exists>errors msgs. Song_save e db s = (Inl (ValidationErrorDict errors), db)
          \<and> (''price'', msgs) \<in> set errors
          \<and> ''The price must be lower than 5 euros.'' \<in> set msgs"
    by blast
next
  assume "0 \<le> dec_value p \<and> dec_value p \<le> 499 / 100"
  then show "less_than_five p = Inr ()"
    by (simp add: less_than_five_def)
qed

theorem song_price_below_five_witness:
  "(\<exists>errors msgs. Song_save example_env empty_db song_expensive = (Inl (ValidationErrorDict errors), empty_db)
          \<and> (''price'', msgs) \<in> set errors
          \<and> ''The price must be lower than 5 euros.'' \<in> set msgs)
   \<and> less_than_five (decimal_of 499 (- 2)) = Inr ()"
  using song_price_below_five [where s = song_expensive and p = "decimal_of 500 (- 2)" and e = example_env and db = empty_db]
    song_price_below_five [where p = "decimal_of 499 (- 2)"]
  by (simp add: song_expensive_def)

subsection \<open>The constraint unique_song\<close>

text \<open>
  Claim C5, as amended. Of two Song records with the same (title, author, album, duration)
  in which all four values are set, at most one is persisted: saving a Song whose four
  values equal those of another row of the table (any row when the Song is being added or
  has no key, a row with a different key otherwise) raises a \<^verbatim>\<open>ValidationError\<close> and
  leaves the database as it was. A tuple with a null author or album is not covered, since
  neither \<^verbatim>\<open>UniqueConstraint.validate\<close> nor the unique index compares rows with a
  \<open>NULL\<close>; the example after the theorem persists two such Songs.
\<close>

theorem unique_song_rejects_duplicate:
  "r \<in> set (songs db) \<and> same_unique_song self r \<and> \<not> has_null_unique_song self
     \<and> (song_adding self \<or> song_id self = None \<or> song_id r \<noteq> song_id self) \<longrightarrow>
   (\<exists>errors. errors \<noteq> [] \<and> Song_save e db self = (Inl (ValidationErrorDict errors), db))"
proof
  assume h: "r \<in> set (songs db) \<and> same_unique_song self r \<and> \<not> has_null_unique_song self
     \<and> (song_adding self \<or> song_id self = None \<or> song_id r \<noteq> song_id self)"
  then have "r \<in> set (others (song_adding self) (song_id self) song_id (songs db))"
    by (auto simp: others_def)
  with h have "filter (same_unique_song self)
      (others (song_adding self) (song_id self) song_id (songs db)) \<noteq> []"
    by (auto simp: filter_empty_conv)
  with h have "Song_validate_constraints db self [] \<noteq> []"
    by (simp add: Song_validate_constraints_def)
  then obtain errors where "errors \<noteq> []"
    "Song_full_clean e db self = Inl (ValidationErrorDict errors)"
    unfolding Song_full_clean_def
    using full_clean_cases [of "Song_clean_fields e db self" Model_clean
        "unique_pk (song_adding self) (song_id self) (pks song_id (songs db))"
        "Song_validate_constraints db self"]
      full_clean_ok_iff [of "Song_clean_fields e db self" Model_clean
        "unique_pk (song_adding self) (song_id self) (pks song_id (songs db))"
        "Song_validate_constraints db self"]
    by auto
  then show "\<exists>errors. errors \<noteq> [] \<and> Song_save e db self = (Inl (ValidationErrorDict errors), db)"
    by (auto simp: Song_save_def ValidatedModel_save_def)
qed

theorem unique_song_rejects_duplicate_witness:
  "\<exists>errors. errors \<noteq> [] \<and> Song_save example_env catalogue_db song_rhapsody =
     (Inl (ValidationErrorDict errors), catalogue_db)"
  using unique_song_rejects_duplicate [where r = rhapsody_row and db = catalogue_db and self = song_rhapsody
      and e = example_env]
  by (simp add: catalogue_db_def rhapsody_row_def song_rhapsody_def song_intro_def
      same_unique_song_def has_null_unique_song_def)

text \<open>
  The claim as stated (also for null author and album) fails: the same Song without author
  and album is saved twice, and both rows are in the table afterwards.
\<close>

theorem unique_song_null_counterexample:
  "Song_save example_env empty_db song_intro =
     (Inr (song_intro_saved 1), empty_db \<lparr> songs := [song_intro_saved 1] \<rparr>)
   \<and> Song_save example_env (empty_db \<lparr> songs := [song_intro_saved 1] \<rparr>) song_intro =
     (Inr (song_intro_saved 2),
      empty_db \<lparr> songs := [song_intro_saved 1, song_intro_saved 2] \<rparr>)
   \<and> same_unique_song (song_intro_saved 1) (song_intro_saved 2)
   \<and> song_id (song_intro_saved 1) \<noteq> song_id (song_intro_saved 2)
   \<and> song_author (song_intro_saved 2) = None \<and> song_album (song_intro_saved 2) = None"
  by (simp add: intro_first_save,
      simp add: Song_save_def ValidatedModel_save_def intro_full_clean Song_Model_save_def
        Model_save_def,
      simp add: Let_def Song_pre_save_def Song_integrity_def fk_ok_def integrity_def
        has_null_unique_song_def same_unique_song_def song_intro_def song_intro_saved_def
        next_pk_def pks_def example_defs)

subsection \<open>Musician.nationality\<close>

text \<open>
  Claim C9, as amended. \<^verbatim>\<open>CharField(max_length=2)\<close> bounds the length from above only:
  the nationality of a Musician passes field validation exactly when it has one or two
  characters, and a Musician whose nationality is unset, empty or longer than two characters
  is not persisted (\<^verbatim>\<open>save\<close> raises a \<^verbatim>\<open>ValidationError\<close> and leaves the database as it
  was). A nationality of one character is accepted.
\<close>

theorem nationality_one_or_two:
  "((clean_field empty_str e Musician_nationality (Some n) = []) = (1 \<le> length n \<and> length n \<le> 2))
   \<and> (musician_nationality m = None
        \<or> musician_nationality m = Some n \<and> (length n = 0 \<or> 2 < length n) \<longrightarrow>
      (\<exists>errors. errors \<noteq> [] \<and> Musician_save e db m = (Inl (ValidationErrorDict errors), db)))"
proof (intro conjI impI)
  show "(clean_field empty_str e Musician_nationality (Some n) = []) = (1 \<le> length n \<and> length n \<le> 2)"
    by (rule nationality_field)
next
  assume "musician_nationality m = None
        \<or> musician_nationality m = Some n \<and> (length n = 0 \<or> 2 < length n)"
  then have "clean_field empty_str e Musician_nationality (musician_nationality m) \<noteq> []"
    using nationality_null [of e] nationality_field [of e n] by auto
  then have "Musician_clean_fields e db m \<noteq> []"
    by (simp add: Musician_clean_fields_def entry_def)
  then show "\<exists>errors. errors \<noteq> [] \<and> Musician_save e db m = (Inl (ValidationErrorDict errors), db)"
    by (rule Musician_save_fails)
qed

theorem nationality_one_or_two_witness:
  "clean_field empty_str example_env Musician_nationality (Some ''D'') = []
   \<and> clean_field empty_str example_env Musician_nationality (Some ''GB'') = []
   \<and> (\<exists>errors. errors \<noteq> [] \<and>
         Musician_save example_env catalogue_db (musician_may \<lparr> musician_nationality := Some ''GBR'' \<rparr>) =
           (Inl (ValidationErrorDict errors), catalogue_db))"
  using nationality_one_or_two [where e = example_env and n = "''D''"]
    nationality_one_or_two [where e = example_env and n = "''GB''"]
    nationality_one_or_two [where e = example_env and n = "''GBR''" and db = catalogue_db
        and m = "musician_may \<lparr> musician_nationality := Some ''GBR'' \<rparr>"]
  by simp

text \<open>
  The claim as stated (a shorter nationality fails) is false: a Musician with the
  one-character nationality \<open>D\<close> is saved.
\<close>

theorem nationality_single_character_counterexample:
  "Musician_save example_env (empty_db \<lparr> authors := [queen_row] \<rparr>) musician_short =
     (Inr (musician_short \<lparr> musician_id := Some 1, musician_adding := False \<rparr>),
      empty_db \<lparr> authors := [queen_row],
                 musicians := [musician_short \<lparr> musician_id := Some 1, musician_adding := False \<rparr>] \<rparr>)
   \<and> musician_nationality musician_short = Some ''D''"
  by (simp add: Musician_save_def ValidatedModel_save_def short_full_clean
        Musician_Model_save_def Model_save_def,
      simp add: Let_def Musician_integrity_def fk_ok_def integrity_def musician_short_def
        musician_may_def queen_row_def next_pk_def pks_def example_defs)

subsection \<open>RelationshipAuthorMusician.start and .end\<close>

text \<open>
  Claim C8, as amended. \<^verbatim>\<open>start\<close> and \<^verbatim>\<open>end\<close> are declared without validators, so no
  year bound applies to them: a new RelationshipAuthorMusician whose author and musician
  exist is persisted whenever each of \<^verbatim>\<open>start\<close> and \<^verbatim>\<open>end\<close> is unset or lies in the
  small-integer range from -32768 to 32767, whether or not it lies between 1000 and the
  current year.
\<close>

theorem membership_years_unbounded:
  "ram_id r = None \<and> ram_author r = Some a \<and> a \<in> set (pks author_id (authors db))
     \<and> ram_musician r = Some m \<and> m \<in> set (pks musician_id (musicians db))
     \<and> small_integer (ram_start r) \<and> small_integer (ram_end r) \<longrightarrow>
   (\<exists>k. RelationshipAuthorMusician_save e db r =
      (Inr (r \<lparr> ram_id := Some k, ram_adding := False \<rparr>),
       db \<lparr> relationship_author_musician :=
              relationship_author_musician db @ [r \<lparr> ram_id := Some k, ram_adding := False \<rparr>] \<rparr>))"
proof
  assume h: "ram_id r = None \<and> ram_author r = Some a \<and> a \<in> set (pks author_id (authors db))
     \<and> ram_musician r = Some m \<and> m \<in> set (pks musician_id (musicians db))
     \<and> small_integer (ram_start r) \<and> small_integer (ram_end r)"
  then have fields: "RelationshipAuthorMusician_clean_fields e db r = []"
    by (simp add: RelationshipAuthorMusician_clean_fields_def small_integer_field fk_required
        RelationshipAuthorMusician_author_def RelationshipAuthorMusician_musician_def entry_def)
  with h have clean: "RelationshipAuthorMusician_full_clean e db r = Inr ()"
    by (simp add: RelationshipAuthorMusician_full_clean_def full_clean_ok_iff Model_clean_def
        messages_def unique_pk_def)
  define k where "k = next_pk (pks ram_id (relationship_author_musician db))"
  have fresh: "k \<notin> set (pks ram_id (relationship_author_musician db))"
  proof -
    have "\<And>ks j. j \<in> set ks \<Longrightarrow> j \<le> fold max ks (0::nat)"
    proof -
      fix ks :: "nat list" and j
      have "\<And>acc. j \<in> set ks \<or> j \<le> acc \<Longrightarrow> j \<le> fold max ks acc"
        by (induction ks) (auto simp: max_def)
      then show "j \<in> set ks \<Longrightarrow> j \<le> fold max ks 0" by blast
    qed
    then show ?thesis unfolding k_def next_pk_def by fastforce
  qed
  from h clean fresh show "\<exists>k. RelationshipAuthorMusician_save e db r =
      (Inr (r \<lparr> ram_id := Some k, ram_adding := False \<rparr>),
       db \<lparr> relationship_author_musician :=
              relationship_author_musician db @ [r \<lparr> ram_id := Some k, ram_adding := False \<rparr>] \<rparr>)"
    by (intro exI [of _ k])
       (simp add: RelationshipAuthorMusician_save_def ValidatedModel_save_def
          RelationshipAuthorMusician_Model_save_def Model_save_def Let_def k_def [symmetric]
          RelationshipAuthorMusician_integrity_def integrity_def fk_ok_def)
qed

theorem membership_years_unbounded_witness:
  "\<exists>k. RelationshipAuthorMusician_save example_env catalogue_db
         (membership_early \<lparr> ram_start := Some (- 5), ram_end := None \<rparr>) =
      (Inr (membership_early \<lparr> ram_start := Some (- 5), ram_end := None,
              ram_id := Some k, ram_adding := False \<rparr>),
       catalogue_db \<lparr> relationship_author_musician :=
          [membership_early \<lparr> ram_start := Some (- 5), ram_end := None,
              ram_id := Some k, ram_adding := False \<rparr>] \<rparr>)"
  using membership_years_unbounded [where r = "membership_early \<lparr> ram_start := Some (- 5), ram_end := None \<rparr>"
      and a = 1 and m = 1 and db = catalogue_db and e = example_env]
  by (simp add: membership_early_def small_integer_def)

text \<open>
  The claim as stated fails: with the clock in 2026, an association that starts in 999 and
  ends in 3000 is saved.
\<close>

theorem membership_years_counterexample:
  "RelationshipAuthorMusician_save example_env catalogue_db membership_early =
     (Inr membership_saved,
      catalogue_db \<lparr> relationship_author_musician := [membership_saved] \<rparr>)
   \<and> ram_start membership_early = Some 999 \<and> ram_end membership_early = Some 3000
   \<and> get_current_year example_env = 2026"
  by (simp add: RelationshipAuthorMusician_save_def ValidatedModel_save_def early_full_clean
        RelationshipAuthorMusician_Model_save_def Model_save_def,
      simp add: Let_def RelationshipAuthorMusician_integrity_def fk_ok_def integrity_def
        membership_early_def membership_saved_def next_pk_def)

subsection \<open>Deletion policies\<close>

text \<open>
  Claim C6. Deleting an Author leaves every Song in the table, with the \<^verbatim>\<open>author\<close> of the
  Songs that referenced the Author set to null and every other field of every Song as it
  was; deleting an Album deletes exactly the Songs whose \<^verbatim>\<open>album\<close> references it (the
  Song table having a primary key).
\<close>

theorem delete_author_nulls_delete_album_cascades:
  "(author_id a = Some k \<longrightarrow>
      (\<exists>db'. Author_delete db a = Inr db'
         \<and> songs db' = map (\<lambda>s. if song_author s = Some k then s \<lparr> song_author := None \<rparr> else s)
                           (songs db)))
   \<and> (album_id al = Some j \<and> primary_keys song_id (songs db) \<longrightarrow>
      (\<exists>db'. Album_delete db al = Inr db'
         \<and> songs db' = filter (\<lambda>s. song_album s \<noteq> Some j) (songs db)))"
  by (simp add: Author_delete_def Album_delete_def songs_delete_authors songs_delete_albums
      remove_selected)

theorem delete_author_nulls_delete_album_cascades_witness:
  "(\<exists>db'. Author_delete catalogue_db queen_row = Inr db'
        \<and> songs db' = [rhapsody_row \<lparr> song_author := None \<rparr>])
   \<and> (\<exists>db'. Album_delete catalogue_db opera_row = Inr db' \<and> songs db' = [])"
  using delete_author_nulls_delete_album_cascades [where a = queen_row and k = 1 and db = catalogue_db and al = opera_row and j = 1]
  by (simp add: queen_row_def opera_row_def catalogue_db_def rhapsody_row_def song_rhapsody_def
      primary_keys_def)

text \<open>
  Claim C10. Deleting an Author deletes exactly the Musicians whose \<^verbatim>\<open>author\<close> references
  it (the Musician table having a primary key): \<^verbatim>\<open>Musician.author\<close> is declared with
  \<^verbatim>\<open>on_delete=CASCADE\<close>, where \<^verbatim>\<open>Song.author\<close> is declared with \<^verbatim>\<open>SET_NULL\<close>.
\<close>

theorem delete_author_cascades_to_musicians:
  "author_id a = Some k \<and> primary_keys musician_id (musicians db) \<longrightarrow>
     (\<exists>db'. Author_delete db a = Inr db'
        \<and> musicians db' = filter (\<lambda>m. musician_author m \<noteq> Some k) (musicians db))"
  by (simp add: Author_delete_def musicians_delete_authors remove_selected)

theorem delete_author_cascades_to_musicians_witness:
  "\<exists>db'. Author_delete catalogue_db queen_row = Inr db' \<and> musicians db' = []"
  using delete_author_cascades_to_musicians [where a = queen_row and k = 1 and db = catalogue_db]
  by (simp add: queen_row_def catalogue_db_def may_row_def musician_may_def primary_keys_def)

subsection \<open>The relation Song.authors\<close>




end
